theory Spec2Isabelle
  imports Main "HOL-Library.Word"
begin

unbundle bit_operations_syntax

section \<open>The CPC client library (lib/sl_cpc.c)\<close>

text \<open>
  A shallow embedding of the client library of the CPC daemon. Every library function
  becomes a HOL function over an explicit \<open>world\<close>: the value of \<open>errno\<close>, the
  library's three static variables, the disposition of SIGUSR1, the file status flags the
  kernel keeps for each descriptor, and the list of system calls made so far. What a
  system call returns is not decided by the library, so each model function takes the
  outcomes of the calls it makes as explicit arguments and the theorems hold for all of
  them.

  The tracing macros \<open>trace_lib\<close> and \<open>trace_lib_error\<close> only print to stderr, and
  \<open>lib_trace\<close> saves \<open>errno\<close> on entry and restores it before returning; they are left
  out of the model. The model is of an LP64 little-endian Linux host: \<open>size_t\<close> and
  \<open>ssize_t\<close> have 64 bits, \<open>int\<close>, \<open>uint32_t\<close> and \<open>pid_t\<close> have 32, \<open>bool\<close> has 8.
\<close>

subsection \<open>Constants of the system headers (Linux)\<close>

definition EPERM :: int where "EPERM = 1"
definition EAGAIN :: int where "EAGAIN = 11"
definition ENOMEM :: int where "ENOMEM = 12"
definition EINVAL :: int where "EINVAL = 22"
definition ERANGE :: int where "ERANGE = 34"
definition EBADF :: int where "EBADF = 9"
definition ELIBBAD :: int where "ELIBBAD = 80"
definition ECONNRESET :: int where "ECONNRESET = 104"

definition O_RDWR :: int where "O_RDWR = 2"
definition O_NONBLOCK :: int where "O_NONBLOCK = 2048"
definition MSG_DONTWAIT :: int where "MSG_DONTWAIT = 64"
definition INT_MAX :: int where "INT_MAX = 2147483647"

text \<open>\<open>sizeof(((struct sockaddr_un * )0)->sun_path)\<close>.\<close>
definition sizeof_sun_path :: nat where "sizeof_sun_path = 108"

definition sizeof_bool :: nat where "sizeof_bool = 1"
definition sizeof_uint8_t :: nat where "sizeof_uint8_t = 1"
definition sizeof_int :: nat where "sizeof_int = 4"
definition sizeof_uint32_t :: nat where "sizeof_uint32_t = 4"
definition sizeof_pid_t :: nat where "sizeof_pid_t = 4"
definition sizeof_size_t :: nat where "sizeof_size_t = 8"

subsection \<open>Constants of sl\_cpc.c\<close>

definition DEFAULT_INSTANCE_NAME :: string where "DEFAULT_INSTANCE_NAME = ''cpcd_0''"
definition DEFAULT_SOCKET_FOLDER :: string where "DEFAULT_SOCKET_FOLDER = ''/dev/shm''"
definition CTRL_SOCKET_TIMEOUT_SEC :: int where "CTRL_SOCKET_TIMEOUT_SEC = 2"
definition DEFAULT_ENDPOINT_SOCKET_SIZE :: int where "DEFAULT_ENDPOINT_SOCKET_SIZE = 4087"

subsection \<open>Declarations of the headers that sl\_cpc.c includes\<close>

text \<open>
  \<open>sl_cpc.h\<close>, \<open>version.h\<close> and \<open>server_core/cpcd_exchange.h\<close> are not among the source
  files. The constants they define are taken as parameters, collected in one record, and
  nothing below depends on their values. \<open>sizeof_cpcd_exchange_buffer_t\<close> is the size of
  the header of an exchange message, the structure without its flexible \<open>payload\<close> member.
\<close>

record headers =
  LIBRARY_API_VERSION :: "8 word"
  SL_CPC_READ_MINIMUM_SIZE :: nat
  SL_CPC_FLAG_NON_BLOCK :: nat
  SL_CPC_ENDPOINT_SECURITY :: "8 word"
  sizeof_cpcd_exchange_buffer_t :: nat
  sizeof_cpc_timeval_t :: nat

text \<open>
  The enumeration \<open>cpcd_exchange_type_t\<close>: the six enumerators sl\_cpc.c uses, and
  \<open>EXCHANGE_OTHER\<close> for any other value a peer may put into the field.
\<close>

datatype cpcd_exchange_type_t =
    EXCHANGE_ENDPOINT_STATUS_QUERY
  | EXCHANGE_OPEN_ENDPOINT_QUERY
  | EXCHANGE_MAX_WRITE_SIZE_QUERY
  | EXCHANGE_VERSION_QUERY
  | EXCHANGE_CLOSE_ENDPOINT_QUERY
  | EXCHANGE_SET_PID_QUERY
  | EXCHANGE_OTHER nat

record cpcd_exchange_buffer_t =
  type :: cpcd_exchange_type_t
  endpoint_number :: "8 word"
  payload :: "8 word list"

text \<open>
  The enumeration \<open>cpc_option_t\<close>, with the enumerators sl\_cpc.c names and
  \<open>CPC_OPTION_OTHER\<close> for any other value, and the structure \<open>cpc_timeval_t\<close> with the two
  \<open>int\<close> members sl\_cpc.c reads and writes.
\<close>

datatype cpc_option_t =
    CPC_OPTION_NONE
  | CPC_OPTION_BLOCKING
  | CPC_OPTION_RX_TIMEOUT
  | CPC_OPTION_TX_TIMEOUT
  | CPC_OPTION_SOCKET_SIZE
  | CPC_OPTION_MAX_WRITE_SIZE
  | CPC_OPTION_OTHER nat

record cpc_timeval_t =
  seconds :: int
  microseconds :: int

text \<open>\<open>cpc_reset_callback_t\<close> is a function pointer; a callback is identified by a number.\<close>

type_synonym cpc_reset_callback_t = nat

subsection \<open>The library's data\<close>

text \<open>The mutexes of the two structures carry no data and are not fields of the records.
  The members \<open>id\<close> and \<open>lib_handle\<close> of an endpoint are \<open>ep_id\<close> and \<open>ep_lib_handle\<close>,
  and the parameter \<open>id\<close> of a function is \<open>n\<close>.\<close>

record sli_cpc_handle_t =
  ctrl_sock_fd :: int
  max_write_size :: nat

record sli_cpc_endpoint_t =
  ep_id :: "8 word"
  sock_fd :: int
  ep_lib_handle :: sli_cpc_handle_t

text \<open>
  \<open>cpc_handle_t\<close> and \<open>cpc_endpoint_t\<close> are structures with the single member \<open>ptr\<close>:
  \<open>None\<close> is the null pointer, \<open>Some x\<close> points to \<open>x\<close>.
\<close>

type_synonym cpc_handle_t = "sli_cpc_handle_t option"
type_synonym cpc_endpoint_t = "sli_cpc_endpoint_t option"

subsection \<open>The world: errno, the static variables, the kernel, the calls made\<close>

datatype sockopt_name = SO_RCVTIMEO | SO_SNDTIMEO | SO_SNDBUF

text \<open>The object a \<open>void *optval\<close> points to.\<close>

datatype optval_t =
    OV_bool bool
  | OV_int int
  | OV_timeval cpc_timeval_t
  | OV_size nat

datatype event =
    Ev_access string
  | Ev_socket
  | Ev_connect int string
  | Ev_setsockopt int sockopt_name optval_t
  | Ev_getsockopt int sockopt_name
  | Ev_send_exchange int cpcd_exchange_buffer_t nat
  | Ev_send int "8 word list" int
  | Ev_recv int nat int
  | Ev_close int
  | Ev_fcntl_getfl int
  | Ev_fcntl_setfl int int
  | Ev_signal_SIGUSR1
  | Ev_sleep nat
  | Ev_reset_callback cpc_reset_callback_t

record world =
  errno :: int
  saved_enable_tracing :: bool
  saved_instance_name :: "string option"
  saved_reset_callback :: "cpc_reset_callback_t option"
  sigusr1_is_handled :: bool
  fd_flags :: "int \<rightharpoonup> int"
  trace :: "event list"

definition emit :: "event \<Rightarrow> world \<Rightarrow> world" where
  "emit e w = w\<lparr>trace := trace w @ [e]\<rparr>"

subsection \<open>System calls\<close>

text \<open>
  The outcome of a call that returns a count or a descriptor: \<open>Sys_ok n\<close> returns \<open>n\<close>,
  \<open>Sys_err e\<close> returns \<open>-1\<close> and sets \<open>errno\<close> to \<open>e\<close>.
\<close>

datatype sysret = Sys_ok nat | Sys_err int

fun sys_return :: "sysret \<Rightarrow> world \<Rightarrow> int \<times> world" where
  "sys_return (Sys_ok n) w = (int n, w)"
| "sys_return (Sys_err e) w = (-1, w\<lparr>errno := e\<rparr>)"

definition sys_access :: "string \<Rightarrow> sysret \<Rightarrow> world \<Rightarrow> int \<times> world" where
  "sys_access path r w = sys_return r (emit (Ev_access path) w)"

text \<open>A new socket is open for reading and writing and blocking.\<close>

definition sys_socket :: "sysret \<Rightarrow> world \<Rightarrow> int \<times> world" where
  "sys_socket r w =
     (case sys_return r (emit Ev_socket w) of
        (fd, w') \<Rightarrow> (fd, if 0 \<le> fd then w'\<lparr>fd_flags := (fd_flags w')(fd \<mapsto> O_RDWR)\<rparr> else w'))"

definition sys_connect :: "int \<Rightarrow> string \<Rightarrow> sysret \<Rightarrow> world \<Rightarrow> int \<times> world" where
  "sys_connect fd path r w = sys_return r (emit (Ev_connect fd path) w)"

definition sys_setsockopt :: "int \<Rightarrow> sockopt_name \<Rightarrow> optval_t \<Rightarrow> sysret \<Rightarrow> world \<Rightarrow> int \<times> world" where
  "sys_setsockopt fd name v r w = sys_return r (emit (Ev_setsockopt fd name v) w)"

definition sys_getsockopt :: "int \<Rightarrow> sockopt_name \<Rightarrow> sysret \<Rightarrow> world \<Rightarrow> int \<times> world" where
  "sys_getsockopt fd name r w = sys_return r (emit (Ev_getsockopt fd name) w)"

definition sys_close :: "int \<Rightarrow> sysret \<Rightarrow> world \<Rightarrow> int \<times> world" where
  "sys_close fd r w =
     (case sys_return r (emit (Ev_close fd) w) of
        (rc, w') \<Rightarrow> (rc, w'\<lparr>fd_flags := (fd_flags w')(fd := None)\<rparr>))"

text \<open>
  \<open>fcntl(fd, F_GETFL)\<close> returns the file status flags of an open descriptor, and
  \<open>fcntl(fd, F_SETFL, flags)\<close> replaces them; on a descriptor that is not open both fail
  with \<open>EBADF\<close>.
\<close>

definition sys_fcntl_getfl :: "int \<Rightarrow> world \<Rightarrow> int \<times> world" where
  "sys_fcntl_getfl fd w =
     (case fd_flags w fd of
        None \<Rightarrow> (-1, (emit (Ev_fcntl_getfl fd) w)\<lparr>errno := EBADF\<rparr>)
      | Some fl \<Rightarrow> (fl, emit (Ev_fcntl_getfl fd) w))"

definition sys_fcntl_setfl :: "int \<Rightarrow> int \<Rightarrow> world \<Rightarrow> int \<times> world" where
  "sys_fcntl_setfl fd flags w =
     (case fd_flags w fd of
        None \<Rightarrow> (-1, (emit (Ev_fcntl_setfl fd flags) w)\<lparr>errno := EBADF\<rparr>)
      | Some fl \<Rightarrow> (0, (emit (Ev_fcntl_setfl fd flags) w)\<lparr>fd_flags := (fd_flags w)(fd \<mapsto> flags)\<rparr>))"

definition sys_sleep :: "nat \<Rightarrow> world \<Rightarrow> world" where
  "sys_sleep s w = emit (Ev_sleep s) w"

text \<open>\<open>signal(SIGUSR1, SIGUSR1_handler)\<close>.\<close>

definition sys_signal_SIGUSR1 :: "world \<Rightarrow> world" where
  "sys_signal_SIGUSR1 w = (emit Ev_signal_SIGUSR1 w)\<lparr>sigusr1_is_handled := True\<rparr>"

text \<open>
  \<open>send\<close> of an exchange message of \<open>len\<close> bytes, and of raw bytes. The sockets are of type
  \<open>SOCK_SEQPACKET\<close>.
\<close>

definition sys_send_exchange ::
    "int \<Rightarrow> cpcd_exchange_buffer_t \<Rightarrow> nat \<Rightarrow> sysret \<Rightarrow> world \<Rightarrow> int \<times> world" where
  "sys_send_exchange fd buf len r w = sys_return r (emit (Ev_send_exchange fd buf len) w)"

definition sys_send :: "int \<Rightarrow> 8 word list \<Rightarrow> int \<Rightarrow> sysret \<Rightarrow> world \<Rightarrow> int \<times> world" where
  "sys_send fd data flags r w = sys_return r (emit (Ev_send fd data flags) w)"

text \<open>
  What \<open>recv\<close> finds on a socket that carries exchange messages: an error; fewer bytes than
  the header of a message (none when the peer has closed the connection); or one whole
  message, header and payload. \<open>recv\<close> returns the number of bytes it stored, at most the
  capacity \<open>cap\<close> of the buffer, and the buffer is read through the structure. A message
  shorter than the header leaves no field the library reads (it reads a field only after
  it has compared the count), so the buffer is kept as it was.
\<close>

datatype recv_result =
    Recv_err int
  | Recv_short nat
  | Recv_msg cpcd_exchange_buffer_t

fun sys_recv_exchange ::
    "headers \<Rightarrow> int \<Rightarrow> cpcd_exchange_buffer_t \<Rightarrow> nat \<Rightarrow> recv_result \<Rightarrow> world
      \<Rightarrow> int \<times> cpcd_exchange_buffer_t \<times> world" where
  "sys_recv_exchange hdr fd buf cap (Recv_err e) w =
     (-1, buf, (emit (Ev_recv fd cap 0) w)\<lparr>errno := e\<rparr>)"
| "sys_recv_exchange hdr fd buf cap (Recv_short n) w =
     (int (min n (sizeof_cpcd_exchange_buffer_t hdr - 1)), buf, emit (Ev_recv fd cap 0) w)"
| "sys_recv_exchange hdr fd buf cap (Recv_msg m) w =
     (int (min cap (sizeof_cpcd_exchange_buffer_t hdr + length (payload m))),
      m\<lparr>payload := take (cap - sizeof_cpcd_exchange_buffer_t hdr)
                      (payload m @ drop (length (payload m)) (payload buf))\<rparr>,
      emit (Ev_recv fd cap 0) w)"

text \<open>
  What \<open>recv\<close> finds on an endpoint socket, which carries raw payloads: an error, or the
  bytes of the next message (none when the peer has closed the connection).
\<close>

datatype read_result = Read_err int | Read_data "8 word list"

fun sys_recv :: "int \<Rightarrow> 8 word list \<Rightarrow> nat \<Rightarrow> int \<Rightarrow> read_result \<Rightarrow> world
      \<Rightarrow> int \<times> 8 word list \<times> world" where
  "sys_recv fd buffer count flags (Read_err e) w =
     (-1, buffer, (emit (Ev_recv fd count flags) w)\<lparr>errno := e\<rparr>)"
| "sys_recv fd buffer count flags (Read_data d) w =
     (int (min count (length d)),
      take count d @ drop (min count (length d)) buffer,
      emit (Ev_recv fd count flags) w)"

subsection \<open>cpc\_read\_endpoint and cpc\_write\_endpoint\<close>

text \<open>The conversion of an \<open>ssize_t\<close> to \<open>size_t\<close>.\<close>

definition size_t_of_ssize_t :: "int \<Rightarrow> nat" where
  "size_t_of_ssize_t x = nat (x mod 2 ^ 64)"

text \<open>
  \<open>buffer\<close> and \<open>data\<close> are \<open>None\<close> for a null pointer and otherwise the bytes pointed
  to. The result is the return value, the buffer after the call, and the world.
\<close>

definition cpc_read_endpoint ::
    "headers \<Rightarrow> read_result \<Rightarrow> cpc_endpoint_t \<Rightarrow> 8 word list option \<Rightarrow> nat \<Rightarrow> nat \<Rightarrow> world
      \<Rightarrow> int \<times> 8 word list option \<times> world" where
  "cpc_read_endpoint hdr rcv endpoint buffer count flags w =
     (case (buffer, endpoint) of
        (Some buf, Some ep) \<Rightarrow>
          if count < SL_CPC_READ_MINIMUM_SIZE hdr then (-1, buffer, w\<lparr>errno := EINVAL\<rparr>)
          else
            let sock_flags = (if flags AND SL_CPC_FLAG_NON_BLOCK hdr \<noteq> 0
                              then 0 OR MSG_DONTWAIT else 0);
                (bytes_read, buf', w1) = sys_recv (sock_fd ep) buf count sock_flags rcv w
            in if bytes_read = 0 then (-1, Some buf', w1\<lparr>errno := ECONNRESET\<rparr>)
               else if bytes_read < 0 then (-1, Some buf', w1)
               else (bytes_read, Some buf', w1)
      | _ \<Rightarrow> (-1, buffer, w\<lparr>errno := EINVAL\<rparr>))"

text \<open>
  How a call ends: it returns a value, or the process is aborted by a failed \<open>assert\<close>,
  or the call reads the object behind a \<open>void *\<close> as a type the object does not have,
  which C leaves undefined.
\<close>

datatype 'a outcome = Returns 'a | Assertion_failed | Undefined_read

definition cpc_write_endpoint ::
    "headers \<Rightarrow> sysret \<Rightarrow> cpc_endpoint_t \<Rightarrow> 8 word list option \<Rightarrow> nat \<Rightarrow> nat \<Rightarrow> world
      \<Rightarrow> int outcome \<times> world" where
  "cpc_write_endpoint hdr sent endpoint data data_length flags w =
     (case (endpoint, data) of
        (Some ep, Some bytes) \<Rightarrow>
          if data_length = 0 then (Returns (-1), w\<lparr>errno := EINVAL\<rparr>)
          else if data_length > max_write_size (ep_lib_handle ep)
          then (Returns (-1), w\<lparr>errno := EINVAL\<rparr>)
          else
            let sock_flags = (if flags AND SL_CPC_FLAG_NON_BLOCK hdr \<noteq> 0
                              then 0 OR MSG_DONTWAIT else 0);
                (bytes_written, w1) =
                   sys_send (sock_fd ep) (take data_length bytes) sock_flags sent w
            in if bytes_written = -1 then (Returns (-1), w1)
               else if size_t_of_ssize_t bytes_written \<noteq> data_length then (Assertion_failed, w1)
               else (Returns bytes_written, w1)
      | _ \<Rightarrow> (Returns (-1), w\<lparr>errno := EINVAL\<rparr>))"

subsection \<open>cpc\_set\_endpoint\_option and cpc\_get\_endpoint\_option\<close>

text \<open>
  The outcomes of the calls the two functions make: locking and unlocking the endpoint's
  mutex (the \<open>pthread\<close> functions return an error number and leave \<open>errno\<close> alone),
  \<open>setsockopt\<close> or \<open>getsockopt\<close>, and the values \<open>getsockopt\<close> stores.
\<close>

record option_env =
  oe_lock :: int
  oe_unlock :: int
  oe_sockopt :: sysret
  oe_tv_sec :: int
  oe_tv_usec :: int
  oe_sndbuf :: int

text \<open>The conversion of a \<open>long\<close> to \<open>int\<close>.\<close>

definition int_of_long :: "int \<Rightarrow> int" where
  "int_of_long x = (x + 2 ^ 31) mod 2 ^ 32 - 2 ^ 31"

definition set_timeout ::
    "headers \<Rightarrow> option_env \<Rightarrow> sli_cpc_endpoint_t \<Rightarrow> sockopt_name \<Rightarrow> optval_t \<Rightarrow> nat \<Rightarrow> world
      \<Rightarrow> int outcome \<times> world" where
  "set_timeout hdr env ep name v optlen w =
     (if optlen \<noteq> sizeof_cpc_timeval_t hdr then (Returns (-1), w\<lparr>errno := EINVAL\<rparr>)
      else case v of
        OV_timeval useropt \<Rightarrow>
          let (ret, w1) = sys_setsockopt (sock_fd ep) name (OV_timeval useropt) (oe_sockopt env) w
          in if ret < 0 then (Returns (-1), w1) else (Returns 0, w1)
      | _ \<Rightarrow> (Undefined_read, w))"

definition cpc_set_endpoint_option ::
    "headers \<Rightarrow> option_env \<Rightarrow> cpc_endpoint_t \<Rightarrow> cpc_option_t \<Rightarrow> optval_t option \<Rightarrow> nat \<Rightarrow> world
      \<Rightarrow> int outcome \<times> world" where
  "cpc_set_endpoint_option hdr env endpoint option optval optlen w =
     (case (endpoint, optval) of
        (Some ep, Some v) \<Rightarrow>
          if option = CPC_OPTION_NONE then (Returns (-1), w\<lparr>errno := EINVAL\<rparr>)
          else if option = CPC_OPTION_RX_TIMEOUT then set_timeout hdr env ep SO_RCVTIMEO v optlen w
          else if option = CPC_OPTION_TX_TIMEOUT then set_timeout hdr env ep SO_SNDTIMEO v optlen w
          else if option = CPC_OPTION_BLOCKING then
            if optlen \<noteq> sizeof_bool then (Returns (-1), w\<lparr>errno := EINVAL\<rparr>)
            else if oe_lock env < 0 then (Returns (-1), w)
            else
              let (flags, w1) = sys_fcntl_getfl (sock_fd ep) w
              in if flags < 0 then (Returns (-1), w1)
                 else case v of
                   OV_bool b \<Rightarrow>
                     let flags' = (if b = True then flags AND NOT O_NONBLOCK
                                   else flags OR O_NONBLOCK);
                         (ret, w2) = sys_fcntl_setfl (sock_fd ep) flags' w1
                     in if oe_unlock env < 0 then (Returns (-1), w2)
                        else if ret < 0 then (Returns (-1), w2)
                        else (Returns 0, w2)
                 | _ \<Rightarrow> (Undefined_read, w1)
          else if option = CPC_OPTION_SOCKET_SIZE then
            if optlen \<noteq> sizeof_int then (Returns (-1), w\<lparr>errno := EINVAL\<rparr>)
            else
              let (ret, w1) = sys_setsockopt (sock_fd ep) SO_SNDBUF v (oe_sockopt env) w
              in if ret \<noteq> 0 then (Returns (-1), w1) else (Returns 0, w1)
          else (Returns (-1), w\<lparr>errno := EINVAL\<rparr>)
      | _ \<Rightarrow> (Returns (-1), w\<lparr>errno := EINVAL\<rparr>))"

text \<open>
  \<open>optval\<close> and \<open>optlen\<close> are \<open>None\<close> for a null pointer. The result is the return value
  and the objects behind the two pointers after the call.
\<close>

definition get_timeout ::
    "headers \<Rightarrow> option_env \<Rightarrow> sli_cpc_endpoint_t \<Rightarrow> sockopt_name \<Rightarrow> optval_t \<Rightarrow> nat \<Rightarrow> world
      \<Rightarrow> int \<times> optval_t option \<times> nat option \<times> world" where
  "get_timeout hdr env ep name v len w =
     (if len \<noteq> sizeof_cpc_timeval_t hdr then (-1, Some v, Some len, w\<lparr>errno := EINVAL\<rparr>)
      else
        let (ret, w1) = sys_getsockopt (sock_fd ep) name (oe_sockopt env) w
        in if ret < 0 then (-1, Some v, Some len, w1)
           else if oe_tv_sec env > INT_MAX \<or> oe_tv_usec env > INT_MAX
           then (-1, Some v, Some len, w1\<lparr>errno := EINVAL\<rparr>)
           else (0, Some (OV_timeval \<lparr>seconds = int_of_long (oe_tv_sec env),
                                      microseconds = int_of_long (oe_tv_usec env)\<rparr>),
                 Some len, w1))"

text \<open>
  What \<open>getsockopt\<close> leaves behind \<open>optval\<close> when it stores there the first \<open>k\<close> bytes of the
  \<open>int\<close> \<open>x\<close>, the least significant byte first; \<open>k\<close> is the smaller of the \<open>socklen\<close> it is
  given and \<open>sizeof(int)\<close>. All four bytes make the object the \<open>int\<close> \<open>x\<close>. Fewer replace the
  first \<open>k\<close> bytes of the object and leave it its other bytes (\<open>seconds\<close> is taken to be the
  first member of \<open>cpc_timeval_t\<close>; the bytes that follow a \<open>bool\<close> are no part of it), and
  none leave the object as it was.
\<close>

definition replace_low_bytes :: "nat \<Rightarrow> int \<Rightarrow> int \<Rightarrow> int" where
  "replace_low_bytes k x old = (old div 2 ^ (8 * k)) * 2 ^ (8 * k) + x mod 2 ^ (8 * k)"

definition getsockopt_store :: "nat \<Rightarrow> int \<Rightarrow> optval_t \<Rightarrow> optval_t" where
  "getsockopt_store k x v =
     (if k = sizeof_int then OV_int x
      else case v of
        OV_bool b \<Rightarrow> if k = 0 then OV_bool b else OV_bool (x mod 256 \<noteq> 0)
      | OV_int old \<Rightarrow> OV_int (replace_low_bytes k x old)
      | OV_timeval tv \<Rightarrow> OV_timeval (tv\<lparr>seconds := replace_low_bytes k x (seconds tv)\<rparr>)
      | OV_size old \<Rightarrow> OV_size (nat (replace_low_bytes k x (int old))))"

definition cpc_get_endpoint_option ::
    "headers \<Rightarrow> option_env \<Rightarrow> cpc_endpoint_t \<Rightarrow> cpc_option_t \<Rightarrow> optval_t option \<Rightarrow> nat option
      \<Rightarrow> world \<Rightarrow> int \<times> optval_t option \<times> nat option \<times> world" where
  "cpc_get_endpoint_option hdr env endpoint option optval optlen w =
     (case (endpoint, optval, optlen) of
        (Some ep, Some v, Some len) \<Rightarrow>
          if option = CPC_OPTION_NONE then (-1, optval, optlen, w\<lparr>errno := EINVAL\<rparr>)
          else if option = CPC_OPTION_RX_TIMEOUT then get_timeout hdr env ep SO_RCVTIMEO v len w
          else if option = CPC_OPTION_TX_TIMEOUT then get_timeout hdr env ep SO_SNDTIMEO v len w
          else if option = CPC_OPTION_BLOCKING then
            if len < sizeof_bool then (-1, optval, optlen, w\<lparr>errno := ENOMEM\<rparr>)
            else
              let (flags, w1) = sys_fcntl_getfl (sock_fd ep) w
              in if flags < 0 then (-1, optval, Some sizeof_bool, w1)
                 else if flags AND O_NONBLOCK \<noteq> 0
                 then (0, Some (OV_bool False), Some sizeof_bool, w1)
                 else (0, Some (OV_bool True), Some sizeof_bool, w1)
          else if option = CPC_OPTION_SOCKET_SIZE then
            let socklen = len mod 2 ^ 32
            in if len < sizeof_int then (-1, optval, optlen, w\<lparr>errno := ENOMEM\<rparr>)
               else
                 let (ret, w1) = sys_getsockopt (sock_fd ep) SO_SNDBUF (oe_sockopt env) w
                 in if ret < 0 then (-1, optval, optlen, w1)
                    else
                      let stored = min socklen sizeof_int
                      in (0, Some (getsockopt_store stored (oe_sndbuf env) v), Some stored, w1)
          else if option = CPC_OPTION_MAX_WRITE_SIZE then
            (0, Some (OV_size (max_write_size (ep_lib_handle ep))), Some sizeof_size_t, w)
          else (-1, optval, optlen, w\<lparr>errno := EINVAL\<rparr>)
      | _ \<Rightarrow> (-1, optval, optlen, w\<lparr>errno := EINVAL\<rparr>))"

subsection \<open>cpc\_close\_endpoint\<close>

record close_env =
  ce_close :: sysret
  ce_lock :: int
  ce_send :: sysret
  ce_unlock :: int
  ce_recv :: recv_result
  ce_destroy :: int

text \<open>
  \<open>endpoint\<close> is a pointer to the caller's \<open>cpc_endpoint_t\<close>: \<open>None\<close> for a null pointer,
  \<open>Some None\<close> for a structure whose \<open>ptr\<close> is null. The result is the return value, the
  caller's structure after the call, and the world.
\<close>

definition cpc_close_endpoint ::
    "headers \<Rightarrow> close_env \<Rightarrow> cpc_endpoint_t option \<Rightarrow> world
      \<Rightarrow> int \<times> cpc_endpoint_t option \<times> world" where
  "cpc_close_endpoint hdr env endpoint w =
     (case endpoint of
        None \<Rightarrow> (-1, None, w\<lparr>errno := EINVAL\<rparr>)
      | Some None \<Rightarrow> (-1, Some None, w\<lparr>errno := EINVAL\<rparr>)
      | Some (Some ep) \<Rightarrow>
          let (rc, w1) = sys_close (sock_fd ep) (ce_close env) w
          in if rc < 0 then (-1, Some None, w1)
             else
               let close_query_len = sizeof_cpcd_exchange_buffer_t hdr;
                   close_query = \<lparr>type = EXCHANGE_CLOSE_ENDPOINT_QUERY,
                                  endpoint_number = ep_id ep, payload = []\<rparr>
               in if ce_lock env < 0 then (-1, Some None, w1)
                  else
                    let (bytes_written, w2) =
                          sys_send_exchange (ctrl_sock_fd (ep_lib_handle ep)) close_query
                            close_query_len (ce_send env) w1
                    in if bytes_written < 0 \<or> size_t_of_ssize_t bytes_written < close_query_len
                       then (-1, Some None, w2)
                       else
                         let (bytes_read, reply, w3) =
                               sys_recv_exchange hdr (ctrl_sock_fd (ep_lib_handle ep)) close_query
                                 close_query_len (ce_recv env) w2
                         in if ce_unlock env < 0 then (-1, Some None, w3)
                            else if bytes_read \<noteq> int close_query_len
                            then (-1, Some None,
                                  if bytes_read = 0 then w3\<lparr>errno := ECONNRESET\<rparr> else w3)
                            else if ce_destroy env < 0 then (-1, Some None, w3)
                            else (0, Some None, w3))"

subsection \<open>Strings and bytes\<close>

text \<open>
  \<open>snprintf\<close> returns the length of the whole formatted string, or a negative value when
  that length does not fit an \<open>int\<close>, and stores at most \<open>siz - 1\<close> characters of it
  (\<open>siz\<close> is the argument \<open>size\<close>). The GNU C library prints a null \<open>%s\<close> argument as
  \<open>(null)\<close>.
\<close>

definition snprintf_ret :: "string \<Rightarrow> int" where
  "snprintf_ret s = (if int (length s) > INT_MAX then -1 else int (length s))"

definition snprintf_buf :: "nat \<Rightarrow> string \<Rightarrow> string" where
  "snprintf_buf siz s = take (siz - 1) s"

definition percent_s :: "string option \<Rightarrow> string" where
  "percent_s a = (case a of None \<Rightarrow> ''(null)'' | Some s \<Rightarrow> s)"

definition digit :: "nat \<Rightarrow> char" where
  "digit n = ''0123456789'' ! (n mod 10)"

fun percent_d :: "nat \<Rightarrow> string" where
  "percent_d n = (if n < 10 then [digit n] else percent_d (n div 10) @ [digit n])"

declare percent_d.simps [simp del]

definition ctrl_socket_path :: "string option \<Rightarrow> string" where
  "ctrl_socket_path name = DEFAULT_SOCKET_FOLDER @ ''/cpcd/'' @ percent_s name @ ''/ctrl.cpcd.sock''"

definition ep_socket_path :: "string option \<Rightarrow> 8 word \<Rightarrow> string" where
  "ep_socket_path name n =
     DEFAULT_SOCKET_FOLDER @ ''/cpcd/'' @ percent_s name @ ''/ep'' @ percent_d (unat n) @ ''.cpcd.sock''"

text \<open>The bytes of an unsigned value in memory, least significant first, and back.\<close>

fun le_bytes :: "nat \<Rightarrow> nat \<Rightarrow> 8 word list" where
  "le_bytes 0 v = []"
| "le_bytes (Suc n) v = of_nat (v mod 256) # le_bytes n (v div 256)"

fun le_value :: "8 word list \<Rightarrow> nat" where
  "le_value [] = 0"
| "le_value (b # bs) = unat b + 256 * le_value bs"

text \<open>The conversion of a \<open>size_t\<close> to \<open>ssize_t\<close>.\<close>

definition ssize_t_of_size_t :: "nat \<Rightarrow> int" where
  "ssize_t_of_size_t n =
     (if n mod 2 ^ 64 < 2 ^ 63 then int (n mod 2 ^ 64) else int (n mod 2 ^ 64) - 2 ^ 64)"

subsection \<open>The queries of cpc\_init: set\_pid, get\_max\_write, check\_version\<close>

definition set_pid :: "headers \<Rightarrow> nat \<Rightarrow> sysret \<Rightarrow> sli_cpc_handle_t \<Rightarrow> world \<Rightarrow> int \<times> world" where
  "set_pid hdr pid sent lib_handle w =
     (let set_pid_query_len = sizeof_cpcd_exchange_buffer_t hdr + sizeof_pid_t;
          set_pid_query = \<lparr>type = EXCHANGE_SET_PID_QUERY, endpoint_number = 0,
                           payload = le_bytes sizeof_pid_t pid\<rparr>;
          (bytes_written, w1) =
             sys_send_exchange (ctrl_sock_fd lib_handle) set_pid_query set_pid_query_len sent w
      in if bytes_written < int set_pid_query_len then (-1, w1) else (0, w1))"

text \<open>
  The local \<open>size_t max_write_size\<close> of \<open>get_max_write\<close> has no initialiser, and the
  \<open>memcpy\<close> stores \<open>sizeof(uint32_t)\<close> bytes into it: its four low bytes. The four high
  bytes keep what the stack held; \<open>uninit\<close> is the value of the variable before the copy.
\<close>

definition memcpy_uint32_into_size_t :: "nat \<Rightarrow> 8 word list \<Rightarrow> nat" where
  "memcpy_uint32_into_size_t uninit bytes =
     (uninit mod 2 ^ 64 div 2 ^ 32) * 2 ^ 32 + le_value (take sizeof_uint32_t bytes)"

definition get_max_write ::
    "headers \<Rightarrow> sysret \<Rightarrow> recv_result \<Rightarrow> nat \<Rightarrow> sli_cpc_handle_t \<Rightarrow> world \<Rightarrow> int \<times> world" where
  "get_max_write hdr sent rcv uninit lib_handle w =
     (let max_write_query_len = sizeof_cpcd_exchange_buffer_t hdr + sizeof_uint32_t;
          max_write_query = \<lparr>type = EXCHANGE_MAX_WRITE_SIZE_QUERY, endpoint_number = 0,
                             payload = replicate sizeof_uint32_t 0\<rparr>;
          (bytes_written, w1) =
             sys_send_exchange (ctrl_sock_fd lib_handle) max_write_query max_write_query_len sent w
      in if bytes_written < int max_write_query_len then (-1, w1)
         else
           let (bytes_read, reply, w2) =
                 sys_recv_exchange hdr (ctrl_sock_fd lib_handle) max_write_query
                   max_write_query_len rcv w1
           in if bytes_read \<noteq> int max_write_query_len
              then (-1, if bytes_read = 0 then w2\<lparr>errno := ECONNRESET\<rparr> else w2)
              else
                let max_write_size = memcpy_uint32_into_size_t uninit (payload reply)
                in (ssize_t_of_size_t max_write_size, w2))"

definition check_version ::
    "headers \<Rightarrow> sysret \<Rightarrow> recv_result \<Rightarrow> sli_cpc_handle_t \<Rightarrow> world \<Rightarrow> bool \<times> world" where
  "check_version hdr sent rcv lib_handle w =
     (let version_query_len = sizeof_cpcd_exchange_buffer_t hdr + sizeof_uint8_t;
          version_query = \<lparr>type = EXCHANGE_VERSION_QUERY, endpoint_number = 0,
                           payload = [LIBRARY_API_VERSION hdr]\<rparr>;
          (bytes_written, w1) =
             sys_send_exchange (ctrl_sock_fd lib_handle) version_query version_query_len sent w
      in if bytes_written < int version_query_len then (False, w1)
         else
           let (bytes_read, reply, w2) =
                 sys_recv_exchange hdr (ctrl_sock_fd lib_handle) version_query
                   version_query_len rcv w1
           in if bytes_read \<noteq> int version_query_len
              then (False, if bytes_read = 0 then w2\<lparr>errno := ECONNRESET\<rparr> else w2)
              else if take sizeof_uint8_t (payload reply) \<noteq> [LIBRARY_API_VERSION hdr]
              then (False, w2\<lparr>errno := ELIBBAD\<rparr>)
              else (True, w2))"


subsection \<open>cpc\_init\<close>

text \<open>
  The outcomes of the calls of \<open>cpc_init\<close>, in program order. \<open>ie_strdup\<close> tells whether
  \<open>strdup\<close> returned a copy; \<open>ie_malloc\<close> is \<open>None\<close> when \<open>malloc\<close> returned a null
  pointer and otherwise holds what the fresh block had in the place of \<open>max_write_size\<close>.
\<close>

record init_env =
  ie_strdup :: bool
  ie_access :: sysret
  ie_malloc :: "nat option"
  ie_socket :: sysret
  ie_connect :: sysret
  ie_setsockopt :: sysret
  ie_getpid :: nat
  ie_set_pid_send :: sysret
  ie_max_write_send :: sysret
  ie_max_write_recv :: recv_result
  ie_max_write_uninit :: nat
  ie_version_send :: sysret
  ie_version_recv :: recv_result
  ie_mutex_init :: int

text \<open>
  The first block of \<open>cpc_init\<close>: it saves the parameters in the static variables. The name
  is copied only when none is saved yet. \<open>None\<close> is the failure of \<open>strdup\<close>.
\<close>

definition save_parameters ::
    "init_env \<Rightarrow> string option \<Rightarrow> bool \<Rightarrow> cpc_reset_callback_t option \<Rightarrow> world \<Rightarrow> world option" where
  "save_parameters env instance_name enable_tracing reset_callback w =
     (let w0 = w\<lparr>saved_enable_tracing := enable_tracing, saved_reset_callback := reset_callback\<rparr>
      in if saved_instance_name w0 = None then
           if ie_strdup env then
             Some (w0\<lparr>saved_instance_name :=
                        Some (case instance_name of None \<Rightarrow> DEFAULT_INSTANCE_NAME | Some n \<Rightarrow> n)\<rparr>)
           else None
         else Some w0)"

text \<open>
  The rest of \<open>cpc_init\<close> from the call of \<open>access\<close> on, for a handle pointer that is not
  null; \<open>sun_path\<close> is \<open>server_addr.sun_path\<close>. The result is the return value, the
  \<open>ptr\<close> of the caller's handle after the call, and the world.
\<close>

definition init_connect ::
    "headers \<Rightarrow> init_env \<Rightarrow> string \<Rightarrow> cpc_handle_t \<Rightarrow> world \<Rightarrow> int \<times> cpc_handle_t \<times> world" where
  "init_connect hdr env sun_path ptr w =
     (let (rc, w1) = sys_access sun_path (ie_access env) w
      in if rc \<noteq> 0 then (-1, ptr, w1)
         else case ie_malloc env of
           None \<Rightarrow> (-1, ptr, w1\<lparr>errno := ENOMEM\<rparr>)
         | Some garbage \<Rightarrow>
             let (fd, w2) = sys_socket (ie_socket env) w1;
                 lib_handle = \<lparr>ctrl_sock_fd = fd, max_write_size = garbage\<rparr>
             in if fd = 0 then (-1, ptr, w2)
                else
                  let (rc, w3) = sys_connect fd sun_path (ie_connect env) w2
                  in if rc < 0 then (-1, ptr, w3)
                     else
                       let timeout = \<lparr>seconds = CTRL_SOCKET_TIMEOUT_SEC, microseconds = 0\<rparr>;
                           (rc, w4) = sys_setsockopt fd SO_RCVTIMEO (OV_timeval timeout)
                                        (ie_setsockopt env) w3
                       in if rc < 0 then (-1, ptr, w4)
                          else
                            let (ret, w5) = set_pid hdr (ie_getpid env) (ie_set_pid_send env)
                                              lib_handle w4
                            in if ret < 0 then (-1, ptr, w5)
                               else
                                 let (ret, w6) =
                                       get_max_write hdr (ie_max_write_send env)
                                         (ie_max_write_recv env) (ie_max_write_uninit env)
                                         lib_handle w5
                                 in if ret < 0 then (-1, ptr, w6)
                                    else
                                      let lib_handle = lib_handle\<lparr>max_write_size := nat ret\<rparr>;
                                          (ok, w7) = check_version hdr (ie_version_send env)
                                                       (ie_version_recv env) lib_handle w6
                                      in if \<not> ok then (-1, ptr, w7)
                                         else if ie_mutex_init env < 0 then (-1, ptr, w7)
                                         else (0, Some lib_handle, w7))"

text \<open>
  \<open>handle\<close> is the pointer to the caller's \<open>cpc_handle_t\<close>: \<open>None\<close> for a null pointer,
  otherwise the \<open>ptr\<close> member of the structure. \<open>instance_name\<close> is \<open>None\<close> for a null
  pointer, and so is \<open>reset_callback\<close>.
\<close>

definition cpc_init ::
    "headers \<Rightarrow> init_env \<Rightarrow> cpc_handle_t option \<Rightarrow> string option \<Rightarrow> bool
      \<Rightarrow> cpc_reset_callback_t option \<Rightarrow> world \<Rightarrow> int \<times> cpc_handle_t option \<times> world" where
  "cpc_init hdr env handle instance_name enable_tracing reset_callback w =
     (case save_parameters env instance_name enable_tracing reset_callback w of
        None \<Rightarrow>
          (-1, handle,
           w\<lparr>saved_enable_tracing := enable_tracing, saved_reset_callback := reset_callback,
             errno := ENOMEM\<rparr>)
      | Some w1 \<Rightarrow>
          let siz = sizeof_sun_path - 1;
              path = ctrl_socket_path (saved_instance_name w1);
              nchars = snprintf_ret path;
              sun_path = snprintf_buf siz path
          in if nchars < 0 \<or> size_t_of_ssize_t nchars \<ge> siz
             then (-1, handle, w1\<lparr>errno := ERANGE\<rparr>)
             else
               let w2 = (if reset_callback \<noteq> None then sys_signal_SIGUSR1 w1 else w1)
               in (case handle of
                     None \<Rightarrow> (-1, None, w2\<lparr>errno := EINVAL\<rparr>)
                   | Some ptr \<Rightarrow>
                       (case init_connect hdr env sun_path ptr w2 of
                          (ret, ptr', w3) \<Rightarrow> (ret, Some ptr', w3))))"

subsection \<open>cpc\_restart\<close>

record restart_env =
  re_close :: sysret
  re_destroy :: int
  re_init :: "nat \<Rightarrow> init_env"




subsection \<open>cpc\_open\_endpoint\<close>

text \<open>
  The outcomes of the calls of \<open>cpc_open_endpoint\<close>, in program order. On every path the
  mutex of the control socket is unlocked once and the endpoint socket is closed at most
  once, so one outcome for each is enough.
\<close>

record open_env =
  op_malloc_ep :: bool
  op_malloc_query :: bool
  op_lock :: int
  op_send :: sysret
  op_unlock :: int
  op_recv_reply :: recv_result
  op_socket :: sysret
  op_connect :: sysret
  op_close :: sysret
  op_recv_ack :: recv_result
  op_setsockopt :: sysret
  op_mutex_init :: int

text \<open>
  The second half of \<open>cpc_open_endpoint\<close>, from the creation of the endpoint socket on.
  \<open>open_query\<close> is the buffer as the reply on the control socket left it and
  \<open>open_query_len\<close> its size. The result is the return value, the endpoint structure
  when one is handed to the caller, and the world.
\<close>

definition open_connect ::
    "headers \<Rightarrow> open_env \<Rightarrow> string \<Rightarrow> sli_cpc_handle_t \<Rightarrow> 8 word \<Rightarrow> cpcd_exchange_buffer_t \<Rightarrow> nat
      \<Rightarrow> world \<Rightarrow> int \<times> sli_cpc_endpoint_t option \<times> world" where
  "open_connect hdr env sun_path lib_handle n open_query open_query_len w =
     (let (fd, w1) = sys_socket (op_socket env) w;
          ep = \<lparr>ep_id = n, sock_fd = fd, ep_lib_handle = lib_handle\<rparr>
      in if fd = 0 then (-1, None, w1)
         else
           let (rc, w2) = sys_connect (sock_fd ep) sun_path (op_connect env) w1
           in if rc < 0 then (-1, None, snd (sys_close (sock_fd ep) (op_close env) w2))
              else
                let (bytes_read, ack, w3) =
                      sys_recv_exchange hdr (sock_fd ep) open_query open_query_len
                        (op_recv_ack env) w2
                in if size_t_of_ssize_t bytes_read \<noteq> sizeof_cpcd_exchange_buffer_t hdr
                      \<or> type ack \<noteq> EXCHANGE_OPEN_ENDPOINT_QUERY
                   then (-1, None,
                         snd (sys_close (sock_fd ep) (op_close env)
                                (if bytes_read = 0 then w3\<lparr>errno := ECONNRESET\<rparr> else w3)))
                   else
                     let ep_socket_size = DEFAULT_ENDPOINT_SOCKET_SIZE;
                         (rc, w4) = sys_setsockopt (sock_fd ep) SO_SNDBUF (OV_int ep_socket_size)
                                      (op_setsockopt env) w3
                     in if rc \<noteq> 0
                        then (-1, None, snd (sys_close (sock_fd ep) (op_close env) w4))
                        else if op_mutex_init env < 0
                        then (-1, None, snd (sys_close (sock_fd ep) (op_close env) w4))
                        else (sock_fd ep, Some ep, w4))"

text \<open>
  The first half, after the checks of the arguments: the request on the control socket
  and its reply, whose payload is the \<open>bool\<close> \<open>can_open\<close>.
\<close>

definition open_request ::
    "headers \<Rightarrow> open_env \<Rightarrow> string \<Rightarrow> sli_cpc_handle_t \<Rightarrow> 8 word
      \<Rightarrow> world \<Rightarrow> int \<times> sli_cpc_endpoint_t option \<times> world" where
  "open_request hdr env sun_path lib_handle n w =
     (let open_query_len = sizeof_cpcd_exchange_buffer_t hdr + sizeof_bool
      in if \<not> op_malloc_ep env then (-1, None, w\<lparr>errno := ENOMEM\<rparr>)
         else if \<not> op_malloc_query env then (-1, None, w)
         else
           let open_query = \<lparr>type = EXCHANGE_OPEN_ENDPOINT_QUERY, endpoint_number = n,
                             payload = [0]\<rparr>
           in if op_lock env < 0 then (-1, None, w)
              else
                let (bytes_written, w1) =
                      sys_send_exchange (ctrl_sock_fd lib_handle) open_query open_query_len
                        (op_send env) w
                in if bytes_written < int open_query_len then (-1, None, w1)
                   else
                     let (bytes_read, reply, w2) =
                           sys_recv_exchange hdr (ctrl_sock_fd lib_handle) open_query
                             open_query_len (op_recv_reply env) w1
                     in if op_unlock env < 0 then (-1, None, w2)
                        else if bytes_read \<noteq> int open_query_len
                        then (-1, None, if bytes_read = 0 then w2\<lparr>errno := ECONNRESET\<rparr> else w2)
                        else
                          let can_open = (case payload reply of [] \<Rightarrow> False | b # bs \<Rightarrow> b \<noteq> 0)
                          in if can_open = False
                             then (-1, None,
                                   if n = SL_CPC_ENDPOINT_SECURITY hdr then w2\<lparr>errno := EPERM\<rparr>
                                   else w2\<lparr>errno := EAGAIN\<rparr>)
                             else open_connect hdr env sun_path lib_handle n reply open_query_len w2)"

text \<open>
  \<open>handle\<close> is passed by value: it is the \<open>ptr\<close> member. \<open>endpoint\<close> is the pointer to
  the caller's \<open>cpc_endpoint_t\<close>, \<open>None\<close> for a null pointer. The result is the return
  value, the caller's structure after the call, and the world.
\<close>

definition cpc_open_endpoint ::
    "headers \<Rightarrow> open_env \<Rightarrow> cpc_handle_t \<Rightarrow> cpc_endpoint_t option \<Rightarrow> 8 word \<Rightarrow> 8 word \<Rightarrow> world
      \<Rightarrow> int \<times> cpc_endpoint_t option \<times> world" where
  "cpc_open_endpoint hdr env handle endpoint n tx_window_size w =
     (let siz = sizeof_sun_path - 1;
          path = ep_socket_path (saved_instance_name w) n;
          nchars = snprintf_ret path;
          sun_path = snprintf_buf siz path
      in if nchars < 0 \<or> size_t_of_ssize_t nchars \<ge> siz then (-1, endpoint, w\<lparr>errno := ERANGE\<rparr>)
         else if tx_window_size \<noteq> 1 then (-1, endpoint, w\<lparr>errno := EINVAL\<rparr>)
         else
           (case (handle, endpoint) of
              (Some lib_handle, Some old) \<Rightarrow>
                if n = 0 then (-1, endpoint, w\<lparr>errno := EINVAL\<rparr>)
                else
                  (case open_request hdr env sun_path lib_handle n w of
                     (ret, None, w') \<Rightarrow> (ret, endpoint, w')
                   | (ret, Some ep, w') \<Rightarrow> (ret, Some (Some ep), w'))
            | _ \<Rightarrow> (-1, endpoint, w\<lparr>errno := EINVAL\<rparr>)))"

subsection \<open>Reading the list of calls\<close>

text \<open>
  What a world records of one kind of call: the durations of the calls of \<open>sleep\<close>, the
  descriptors given to \<open>close\<close>, and the paths given to \<open>connect\<close>, each in the order
  of the calls.
\<close>

fun sleep_event :: "event \<Rightarrow> nat list" where
  "sleep_event (Ev_sleep s) = [s]"
| "sleep_event e = []"

fun close_event :: "event \<Rightarrow> int list" where
  "close_event (Ev_close fd) = [fd]"
| "close_event e = []"

fun connect_event :: "event \<Rightarrow> string list" where
  "connect_event (Ev_connect fd path) = [path]"
| "connect_event e = []"

definition collect :: "(event \<Rightarrow> 'a list) \<Rightarrow> world \<Rightarrow> 'a list" where
  "collect f w = concat (map f (trace w))"

subsection \<open>Conditions on the parameters and on the outcomes of the calls\<close>

text \<open>
  The header of an exchange message is not empty and its size fits the 32 bits of an
  \<open>int\<close>. The structure has the members \<open>type\<close> and \<open>endpoint_number\<close> before the
  payload, so this holds of every build.
\<close>

definition valid_headers :: "headers \<Rightarrow> bool" where
  "valid_headers hdr \<longleftrightarrow>
     0 < sizeof_cpcd_exchange_buffer_t hdr \<and> sizeof_cpcd_exchange_buffer_t hdr < 2 ^ 31"

text \<open>\<open>send\<close> has sent at least \<open>len\<close> bytes.\<close>

definition sent_all :: "nat \<Rightarrow> sysret \<Rightarrow> bool" where
  "sent_all len r = (case r of Sys_ok k \<Rightarrow> len \<le> k | Sys_err e \<Rightarrow> False)"

text \<open>The call has not failed.\<close>

definition succeeded :: "sysret \<Rightarrow> bool" where
  "succeeded r = (case r of Sys_ok k \<Rightarrow> True | Sys_err e \<Rightarrow> False)"

text \<open>
  The daemon has answered the open request on the control socket with a message whose
  payload starts with a \<open>can_open\<close> byte that is not zero.
\<close>

definition open_granted :: "headers \<Rightarrow> open_env \<Rightarrow> bool" where
  "open_granted hdr env \<longleftrightarrow>
     op_malloc_ep env \<and> op_malloc_query env \<and> 0 \<le> op_lock env
     \<and> sent_all (sizeof_cpcd_exchange_buffer_t hdr + sizeof_bool) (op_send env)
     \<and> 0 \<le> op_unlock env
     \<and> (case op_recv_reply env of
           Recv_msg m \<Rightarrow> (case payload m of [] \<Rightarrow> False | b # bs \<Rightarrow> b \<noteq> 0)
         | _ \<Rightarrow> False)"

text \<open>The endpoint socket has been created as descriptor \<open>fd\<close> and connected.\<close>

definition open_connected :: "open_env \<Rightarrow> nat \<Rightarrow> bool" where
  "open_connected env fd \<longleftrightarrow> op_socket env = Sys_ok fd \<and> fd \<noteq> 0 \<and> succeeded (op_connect env)"

text \<open>
  The first message on the endpoint socket is an exchange header of type
  \<open>EXCHANGE_OPEN_ENDPOINT_QUERY\<close> with no payload.
\<close>

definition is_open_ack :: "recv_result \<Rightarrow> bool" where
  "is_open_ack r =
     (case r of
        Recv_msg m \<Rightarrow> payload m = [] \<and> type m = EXCHANGE_OPEN_ENDPOINT_QUERY
      | _ \<Rightarrow> False)"

text \<open>The path of the endpoint socket fits the buffer \<open>cpc_open_endpoint\<close> gives it.\<close>

definition ep_path_fits :: "world \<Rightarrow> 8 word \<Rightarrow> bool" where
  "ep_path_fits w n \<longleftrightarrow> length (ep_socket_path (saved_instance_name w) n) < sizeof_sun_path - 1"

text \<open>Every step of \<open>cpc_open_endpoint\<close> succeeds, with the endpoint socket on \<open>fd\<close>.\<close>

definition open_succeeds :: "headers \<Rightarrow> open_env \<Rightarrow> nat \<Rightarrow> bool" where
  "open_succeeds hdr env fd \<longleftrightarrow>
     open_granted hdr env \<and> open_connected env fd \<and> is_open_ack (op_recv_ack env)
     \<and> op_setsockopt env = Sys_ok 0 \<and> 0 \<le> op_mutex_init env"

text \<open>The path of the control socket of instance \<open>name\<close> fits the buffer \<open>cpc_init\<close> gives it.\<close>

definition ctrl_path_fits :: "string \<Rightarrow> bool" where
  "ctrl_path_fits name \<longleftrightarrow> length (ctrl_socket_path (Some name)) < sizeof_sun_path - 1"

text \<open>
  The daemon has answered the query of the maximum write size with a payload of four bytes
  or more, and the value \<open>get_max_write\<close> makes of it is not negative as an \<open>ssize_t\<close>.
\<close>

definition max_write_reply_ok :: "headers \<Rightarrow> init_env \<Rightarrow> bool" where
  "max_write_reply_ok hdr env \<longleftrightarrow>
     sent_all (sizeof_cpcd_exchange_buffer_t hdr + sizeof_uint32_t) (ie_max_write_send env)
     \<and> (case ie_max_write_recv env of
           Recv_msg m \<Rightarrow>
             sizeof_uint32_t \<le> length (payload m)
             \<and> 0 \<le> ssize_t_of_size_t
                      (memcpy_uint32_into_size_t (ie_max_write_uninit env) (payload m))
         | _ \<Rightarrow> False)"

text \<open>The daemon has answered the version query with the version of the library.\<close>

definition version_reply_ok :: "headers \<Rightarrow> init_env \<Rightarrow> bool" where
  "version_reply_ok hdr env \<longleftrightarrow>
     sent_all (sizeof_cpcd_exchange_buffer_t hdr + sizeof_uint8_t) (ie_version_send env)
     \<and> (case ie_version_recv env of
           Recv_msg m \<Rightarrow> (case payload m of [] \<Rightarrow> False | v # vs \<Rightarrow> v = LIBRARY_API_VERSION hdr)
         | _ \<Rightarrow> False)"

text \<open>Every step of \<open>cpc_init\<close> succeeds, for the saved instance name \<open>name\<close>.\<close>

definition init_ok :: "headers \<Rightarrow> init_env \<Rightarrow> string \<Rightarrow> bool" where
  "init_ok hdr env name \<longleftrightarrow>
     ctrl_path_fits name \<and> ie_access env = Sys_ok 0 \<and> ie_malloc env \<noteq> None
     \<and> ie_socket env \<noteq> Sys_ok 0 \<and> succeeded (ie_connect env) \<and> succeeded (ie_setsockopt env)
     \<and> sent_all (sizeof_cpcd_exchange_buffer_t hdr + sizeof_pid_t) (ie_set_pid_send env)
     \<and> max_write_reply_ok hdr env \<and> version_reply_ok hdr env \<and> 0 \<le> ie_mutex_init env"

text \<open>
  The handle a successful \<open>cpc_init\<close> stores: the descriptor of the control socket, and as
  \<open>max_write_size\<close> the value \<open>get_max_write\<close> has made of the daemon's reply.
\<close>

definition new_handle :: "init_env \<Rightarrow> sli_cpc_handle_t" where
  "new_handle env =
     \<lparr>ctrl_sock_fd = (case ie_socket env of Sys_ok fd \<Rightarrow> int fd | Sys_err e \<Rightarrow> -1),
      max_write_size =
        nat (ssize_t_of_size_t
              (memcpy_uint32_into_size_t (ie_max_write_uninit env)
                 (case ie_max_write_recv env of Recv_msg m \<Rightarrow> payload m | _ \<Rightarrow> [])))\<rparr>"

text \<open>
  The instance name \<open>cpc_init\<close> works with: the saved one when there is one, otherwise
  the argument, and the default name for a null argument.
\<close>

definition instance_name_used :: "world \<Rightarrow> string option \<Rightarrow> string" where
  "instance_name_used w instance_name =
     (case saved_instance_name w of
        Some saved \<Rightarrow> saved
      | None \<Rightarrow> (case instance_name of None \<Rightarrow> DEFAULT_INSTANCE_NAME | Some n \<Rightarrow> n))"

text \<open>
  \<open>cpc_open_endpoint\<close> gets as far as calling \<open>connect\<close> on the endpoint socket.
\<close>

definition open_reaches_connect ::
    "headers \<Rightarrow> open_env \<Rightarrow> cpc_handle_t \<Rightarrow> cpc_endpoint_t option \<Rightarrow> 8 word \<Rightarrow> 8 word \<Rightarrow> world
      \<Rightarrow> bool" where
  "open_reaches_connect hdr env handle endpoint n tx_window_size w \<longleftrightarrow>
     ep_path_fits w n \<and> tx_window_size = 1 \<and> handle \<noteq> None \<and> endpoint \<noteq> None \<and> n \<noteq> 0
     \<and> open_granted hdr env \<and> op_socket env \<noteq> Sys_ok 0"

subsection \<open>Example values\<close>

text \<open>
  A build of the library: version 2 (\<open>CPC_LIBRARY_API_VERSION\<close> of CMakeLists.txt), a
  minimum read size of 4087 bytes, and a message header of two bytes.
\<close>

definition example_headers :: headers where
  "example_headers = \<lparr>LIBRARY_API_VERSION = 2, SL_CPC_READ_MINIMUM_SIZE = 4087,
     SL_CPC_FLAG_NON_BLOCK = 1, SL_CPC_ENDPOINT_SECURITY = 14,
     sizeof_cpcd_exchange_buffer_t = 2, sizeof_cpc_timeval_t = 8\<rparr>"

text \<open>The world of a process that has not called the library yet.\<close>

definition world0 :: world where
  "world0 = \<lparr>errno = 0, saved_enable_tracing = False, saved_instance_name = None,
     saved_reset_callback = None, sigusr1_is_handled = False, fd_flags = Map.empty,
     trace = []\<rparr>"

definition handle0 :: sli_cpc_handle_t where
  "handle0 = \<lparr>ctrl_sock_fd = 3, max_write_size = 4087\<rparr>"

definition ep0 :: sli_cpc_endpoint_t where
  "ep0 = \<lparr>ep_id = 3, sock_fd = 4, ep_lib_handle = handle0\<rparr>"

text \<open>A world in which the library is initialised, with the control socket on descriptor 3.\<close>

definition world1 :: world where
  "world1 = \<lparr>errno = 0, saved_enable_tracing = False, saved_instance_name = Some ''cpcd_0'',
     saved_reset_callback = None, sigusr1_is_handled = False,
     fd_flags = [3 \<mapsto> O_RDWR], trace = []\<rparr>"

text \<open>The same with endpoint 3 open on descriptor 4.\<close>

definition world2 :: world where
  "world2 = \<lparr>errno = 0, saved_enable_tracing = False, saved_instance_name = Some ''cpcd_0'',
     saved_reset_callback = None, sigusr1_is_handled = False,
     fd_flags = [3 \<mapsto> O_RDWR, 4 \<mapsto> O_RDWR], trace = []\<rparr>"

text \<open>A daemon that answers every request of endpoint 3 as the library expects.\<close>

definition example_close_env :: close_env where
  "example_close_env = \<lparr>ce_close = Sys_ok 0, ce_lock = 0, ce_send = Sys_ok 2, ce_unlock = 0,
     ce_recv = Recv_msg \<lparr>type = EXCHANGE_CLOSE_ENDPOINT_QUERY, endpoint_number = 3, payload = []\<rparr>,
     ce_destroy = 0\<rparr>"

definition example_open_env :: open_env where
  "example_open_env = \<lparr>op_malloc_ep = True, op_malloc_query = True, op_lock = 0,
     op_send = Sys_ok 3, op_unlock = 0,
     op_recv_reply =
       Recv_msg \<lparr>type = EXCHANGE_OPEN_ENDPOINT_QUERY, endpoint_number = 3, payload = [1]\<rparr>,
     op_socket = Sys_ok 4, op_connect = Sys_ok 0, op_close = Sys_ok 0,
     op_recv_ack =
       Recv_msg \<lparr>type = EXCHANGE_OPEN_ENDPOINT_QUERY, endpoint_number = 3, payload = []\<rparr>,
     op_setsockopt = Sys_ok 0, op_mutex_init = 0\<rparr>"

definition example_option_env :: option_env where
  "example_option_env = \<lparr>oe_lock = 0, oe_unlock = 0, oe_sockopt = Sys_ok 0, oe_tv_sec = 0,
     oe_tv_usec = 0, oe_sndbuf = 8174\<rparr>"

text \<open>
  A daemon that answers the queries of \<open>cpc_init\<close> as the library expects: a maximum write
  size of 4087, in four bytes, and version 2. The local variable of \<open>get_max_write\<close>
  happens to hold zero before the copy.
\<close>

definition example_init_env :: init_env where
  "example_init_env = \<lparr>ie_strdup = True, ie_access = Sys_ok 0, ie_malloc = Some 0,
     ie_socket = Sys_ok 3, ie_connect = Sys_ok 0, ie_setsockopt = Sys_ok 0, ie_getpid = 1234,
     ie_set_pid_send = Sys_ok 6, ie_max_write_send = Sys_ok 6,
     ie_max_write_recv =
       Recv_msg \<lparr>type = EXCHANGE_MAX_WRITE_SIZE_QUERY, endpoint_number = 0,
                 payload = [0xF7, 0x0F, 0, 0]\<rparr>,
     ie_max_write_uninit = 0, ie_version_send = Sys_ok 3,
     ie_version_recv =
       Recv_msg \<lparr>type = EXCHANGE_VERSION_QUERY, endpoint_number = 0, payload = [2]\<rparr>,
     ie_mutex_init = 0\<rparr>"

text \<open>
  A restart during which the control socket of the daemon is missing for the first two
  attempts and there for the third.
\<close>

definition example_restart_env :: restart_env where
  "example_restart_env = \<lparr>re_close = Sys_ok 0, re_destroy = 0,
     re_init = (\<lambda>i. if i < 2 then example_init_env\<lparr>ie_access := Sys_err 2\<rparr>
                     else example_init_env)\<rparr>"

text \<open>
  The same daemon, and a run in which the local variable of \<open>get_max_write\<close> holds
  \<open>0x100000000\<close> before the four low bytes are copied into it.
\<close>

definition example_uninit_env :: init_env where
  "example_uninit_env = example_init_env\<lparr>ie_max_write_uninit := 2 ^ 32\<rparr>"

text \<open>A buffer of 4088 bytes.\<close>

definition example_data :: "8 word list" where
  "example_data = replicate 4088 0"

section \<open>Properties\<close>

lemmas sys_defs =
  emit_def sys_access_def sys_socket_def sys_connect_def sys_setsockopt_def sys_getsockopt_def
  sys_close_def sys_fcntl_getfl_def sys_fcntl_setfl_def sys_sleep_def sys_signal_SIGUSR1_def
  sys_send_exchange_def sys_send_def

lemmas example_defs =
  example_headers_def world0_def world1_def world2_def handle0_def ep0_def example_close_env_def
  example_open_env_def example_option_env_def example_init_env_def example_restart_env_def
  example_uninit_env_def

subsection \<open>Reading\<close>

text \<open>
  C10. A call of \<open>cpc_read_endpoint\<close> with a null buffer, a count below
  \<open>SL_CPC_READ_MINIMUM_SIZE\<close> or a null endpoint returns \<open>-1\<close> with \<open>errno\<close> set to
  \<open>EINVAL\<close>; nothing else of the world changes, so nothing is received from the socket,
  and the buffer is left as it was.
\<close>

theorem cpc_read_endpoint_rejects_bad_arguments:
  "buffer = None \<or> count < SL_CPC_READ_MINIMUM_SIZE hdr \<or> endpoint = None \<Longrightarrow>
   cpc_read_endpoint hdr rcv endpoint buffer count flags w = (-1, buffer, w\<lparr>errno := EINVAL\<rparr>)"
  by (auto simp: cpc_read_endpoint_def split: option.splits)

theorem cpc_read_endpoint_rejects_short_count:
  "cpc_read_endpoint example_headers (Read_data [1, 2, 3]) (Some ep0) (Some example_data) 4086 0 world2
     = (-1, Some example_data, world2\<lparr>errno := EINVAL\<rparr>)"
  using cpc_read_endpoint_rejects_bad_arguments
          [of "Some example_data" 4086 example_headers "Some ep0" "Read_data [1, 2, 3]" 0 world2]
  by (simp add: example_headers_def)

text \<open>
  C1, as the code has it. When the peer has closed the endpoint socket, so that \<open>recv\<close>
  returns 0, a call of \<open>cpc_read_endpoint\<close> with valid arguments does not return 0: it
  returns \<open>-1\<close> with \<open>errno\<close> set to \<open>ECONNRESET\<close>, after the one \<open>recv\<close>.
\<close>

theorem cpc_read_endpoint_end_of_file:
  assumes "SL_CPC_READ_MINIMUM_SIZE hdr \<le> count"
      and "cpc_read_endpoint hdr (Read_data []) (Some ep) (Some buf) count flags w = (ret, buffer', w')"
  shows "ret = -1 \<and> errno w' = ECONNRESET \<and> buffer' = Some buf
         \<and> (\<exists>sock_flags. trace w' = trace w @ [Ev_recv (sock_fd ep) count sock_flags])"
  using assms by (auto simp: cpc_read_endpoint_def emit_def Let_def)

theorem cpc_read_endpoint_end_of_file_example:
  "cpc_read_endpoint example_headers (Read_data []) (Some ep0) (Some example_data) 4087 0 world2
     = (-1, Some example_data, world2\<lparr>trace := [Ev_recv 4 4087 0], errno := ECONNRESET\<rparr>)
   \<and> errno (world2\<lparr>trace := [Ev_recv 4 4087 0], errno := ECONNRESET\<rparr>) = ECONNRESET"
proof -
  have run: "cpc_read_endpoint example_headers (Read_data []) (Some ep0) (Some example_data) 4087 0 world2
     = (-1, Some example_data, world2\<lparr>trace := [Ev_recv 4 4087 0], errno := ECONNRESET\<rparr>)"
    by (simp add: cpc_read_endpoint_def example_defs emit_def Let_def)
  have "SL_CPC_READ_MINIMUM_SIZE example_headers \<le> 4087"
    by (simp add: example_headers_def)
  from cpc_read_endpoint_end_of_file [OF this run] run show ?thesis by simp
qed

theorem cpc_read_endpoint_end_of_file_is_not_zero:
  "fst (cpc_read_endpoint example_headers (Read_data []) (Some ep0) (Some example_data) 4087 0 world2) \<noteq> 0"
  by (simp add: cpc_read_endpoint_def example_headers_def emit_def Let_def)

subsection \<open>The blocking option\<close>

lemma O_NONBLOCK_nonneg: "0 \<le> O_NONBLOCK"
  by (simp add: O_NONBLOCK_def)

lemma cleared_O_NONBLOCK: "(fl AND NOT O_NONBLOCK) AND O_NONBLOCK = 0"
  by (simp add: and.assoc)

lemma set_O_NONBLOCK: "(fl OR O_NONBLOCK) AND O_NONBLOCK \<noteq> 0"
proof -
  have "(fl OR O_NONBLOCK) AND O_NONBLOCK = O_NONBLOCK"
    by (rule bit_eqI) (auto simp: bit_and_iff bit_or_iff)
  then show ?thesis by (simp add: O_NONBLOCK_def)
qed

text \<open>
  C9. After \<open>cpc_set_endpoint_option\<close> has set \<open>CPC_OPTION_BLOCKING\<close> to \<open>b\<close> on an
  endpoint and returned 0, \<open>cpc_get_endpoint_option\<close> for \<open>CPC_OPTION_BLOCKING\<close> on that
  endpoint, with room for a \<open>bool\<close>, returns 0, stores \<open>b\<close> and sets \<open>*optlen\<close> to
  \<open>sizeof(bool)\<close>. The file status flags of the socket have \<open>O_NONBLOCK\<close> clear iff \<open>b\<close> is
  true.
\<close>

theorem blocking_option_round_trip:
  assumes "cpc_set_endpoint_option hdr env (Some ep) CPC_OPTION_BLOCKING (Some (OV_bool b)) optlen w
             = (Returns 0, w')"
      and "sizeof_bool \<le> len"
  shows "cpc_get_endpoint_option hdr env' (Some ep) CPC_OPTION_BLOCKING (Some v) (Some len) w'
           = (0, Some (OV_bool b), Some sizeof_bool, emit (Ev_fcntl_getfl (sock_fd ep)) w')
         \<and> (\<exists>fl. fd_flags w' (sock_fd ep) = Some fl \<and> (fl AND O_NONBLOCK = 0) = b)"
  using assms cleared_O_NONBLOCK set_O_NONBLOCK O_NONBLOCK_nonneg
  by (auto simp: cpc_set_endpoint_option_def cpc_get_endpoint_option_def sys_fcntl_getfl_def
        sys_fcntl_setfl_def emit_def Let_def
      split: if_splits option.splits prod.splits)

theorem blocking_option_round_trip_example:
  "fst (cpc_set_endpoint_option example_headers example_option_env (Some ep0) CPC_OPTION_BLOCKING
          (Some (OV_bool False)) 1 world2) = Returns 0
   \<and> fst (snd (cpc_get_endpoint_option example_headers example_option_env (Some ep0)
          CPC_OPTION_BLOCKING (Some (OV_bool True)) (Some 1)
          (snd (cpc_set_endpoint_option example_headers example_option_env (Some ep0)
                  CPC_OPTION_BLOCKING (Some (OV_bool False)) 1 world2))))
       = Some (OV_bool False)"
proof -
  have ok: "fst (cpc_set_endpoint_option example_headers example_option_env (Some ep0)
                   CPC_OPTION_BLOCKING (Some (OV_bool False)) 1 world2) = Returns 0"
    by (simp add: cpc_set_endpoint_option_def example_defs sys_fcntl_getfl_def
          sys_fcntl_setfl_def emit_def Let_def sizeof_bool_def O_RDWR_def)
  then have set: "cpc_set_endpoint_option example_headers example_option_env (Some ep0)
               CPC_OPTION_BLOCKING (Some (OV_bool False)) 1 world2
             = (Returns 0,
                snd (cpc_set_endpoint_option example_headers example_option_env (Some ep0)
                       CPC_OPTION_BLOCKING (Some (OV_bool False)) 1 world2))"
    by (metis prod.collapse)
  have room: "sizeof_bool \<le> 1"
    by (simp add: sizeof_bool_def)
  have "fst (snd (cpc_get_endpoint_option example_headers example_option_env (Some ep0)
          CPC_OPTION_BLOCKING (Some (OV_bool True)) (Some 1)
          (snd (cpc_set_endpoint_option example_headers example_option_env (Some ep0)
                  CPC_OPTION_BLOCKING (Some (OV_bool False)) 1 world2))))
       = Some (OV_bool False)"
    using blocking_option_round_trip [OF set room, of example_option_env "OV_bool True"]
    by (metis fst_conv snd_conv)
  with ok show ?thesis by blast
qed

subsection \<open>Closing\<close>

text \<open>
  C2, as the code has it. Every call of \<open>cpc_close_endpoint\<close> on an endpoint structure
  leaves its \<open>ptr\<close> null, and a second call on the structure is not a success: it
  returns \<open>-1\<close> with \<open>errno\<close> set to \<open>EINVAL\<close>. It makes no system call and changes nothing
  else.
\<close>

theorem cpc_close_endpoint_twice:
  assumes "cpc_close_endpoint hdr env (Some endpoint) w = (ret, endpoint', w')"
  shows "endpoint' = Some None
         \<and> cpc_close_endpoint hdr env' endpoint' w' = (-1, Some None, w'\<lparr>errno := EINVAL\<rparr>)"
proof -
  from assms have "endpoint' = Some None"
    by (auto simp: cpc_close_endpoint_def Let_def split: option.splits prod.splits if_splits)
  then show ?thesis
    by (simp add: cpc_close_endpoint_def)
qed

theorem cpc_close_endpoint_twice_example:
  "cpc_close_endpoint example_headers example_close_env (Some (Some ep0)) world2
     = (0, Some None,
        snd (snd (cpc_close_endpoint example_headers example_close_env (Some (Some ep0)) world2)))
   \<and> cpc_close_endpoint example_headers example_close_env (Some None)
        (snd (snd (cpc_close_endpoint example_headers example_close_env (Some (Some ep0)) world2)))
     = (-1, Some None,
        (snd (snd (cpc_close_endpoint example_headers example_close_env (Some (Some ep0)) world2)))
          \<lparr>errno := EINVAL\<rparr>)"
proof -
  have "fst (cpc_close_endpoint example_headers example_close_env (Some (Some ep0)) world2) = 0"
       "fst (snd (cpc_close_endpoint example_headers example_close_env (Some (Some ep0)) world2))
          = Some None"
    by (simp_all add: cpc_close_endpoint_def example_defs sys_defs Let_def size_t_of_ssize_t_def)
  then have first: "cpc_close_endpoint example_headers example_close_env (Some (Some ep0)) world2
     = (0, Some None,
        snd (snd (cpc_close_endpoint example_headers example_close_env (Some (Some ep0)) world2)))"
    by (metis prod.collapse)
  from cpc_close_endpoint_twice [OF first, of example_close_env] first show ?thesis by blast
qed

theorem cpc_close_endpoint_twice_fails:
  "fst (cpc_close_endpoint example_headers example_close_env (Some (Some ep0)) world2) = 0
   \<and> fst (cpc_close_endpoint example_headers example_close_env
            (fst (snd (cpc_close_endpoint example_headers example_close_env (Some (Some ep0)) world2)))
            (snd (snd (cpc_close_endpoint example_headers example_close_env (Some (Some ep0)) world2))))
       \<noteq> 0"
  by (simp add: cpc_close_endpoint_def example_defs sys_defs Let_def size_t_of_ssize_t_def)

subsection \<open>Opening an endpoint\<close>

lemma sys_return_frame [simp]:
  "trace (snd (sys_return r w)) = trace w"
  "fd_flags (snd (sys_return r w)) = fd_flags w"
  "saved_instance_name (snd (sys_return r w)) = saved_instance_name w"
  "saved_enable_tracing (snd (sys_return r w)) = saved_enable_tracing w"
  "saved_reset_callback (snd (sys_return r w)) = saved_reset_callback w"
  "sigusr1_is_handled (snd (sys_return r w)) = sigusr1_is_handled w"
  by (cases r; simp)+

text \<open>The test of \<open>nchars\<close> passes exactly for a path of fewer than 107 characters.\<close>

lemma path_fits:
  assumes "length p < sizeof_sun_path - Suc 0"
  shows "\<not> snprintf_ret p < 0"
    and "\<not> sizeof_sun_path - Suc 0 \<le> size_t_of_ssize_t (snprintf_ret p)"
    and "snprintf_buf (sizeof_sun_path - Suc 0) p = p"
  using assms
  by (auto simp: snprintf_ret_def size_t_of_ssize_t_def sizeof_sun_path_def INT_MAX_def
        snprintf_buf_def)

lemma path_too_long:
  assumes "\<not> length p < sizeof_sun_path - Suc 0"
  shows "snprintf_ret p < 0 \<or> sizeof_sun_path - Suc 0 \<le> size_t_of_ssize_t (snprintf_ret p)"
  using assms
  by (auto simp: snprintf_ret_def size_t_of_ssize_t_def sizeof_sun_path_def INT_MAX_def)

lemma open_rejects_window:
  assumes "ep_path_fits w n" "tx_window_size \<noteq> 1"
  shows "cpc_open_endpoint hdr env handle endpoint n tx_window_size w
           = (-1, endpoint, w\<lparr>errno := EINVAL\<rparr>)"
  using assms by (simp add: cpc_open_endpoint_def Let_def path_fits ep_path_fits_def)

lemma open_request_granted:
  assumes "open_granted hdr env"
  shows "\<exists>reply. open_request hdr env sun_path lib_handle n w
           = open_connect hdr env sun_path lib_handle n reply
               (sizeof_cpcd_exchange_buffer_t hdr + sizeof_bool)
               (w\<lparr>trace := trace w @
                    [Ev_send_exchange (ctrl_sock_fd lib_handle)
                       \<lparr>type = EXCHANGE_OPEN_ENDPOINT_QUERY, endpoint_number = n, payload = [0]\<rparr>
                       (sizeof_cpcd_exchange_buffer_t hdr + sizeof_bool),
                     Ev_recv (ctrl_sock_fd lib_handle)
                       (sizeof_cpcd_exchange_buffer_t hdr + sizeof_bool) 0]\<rparr>)"
  using assms
  by (auto simp: open_granted_def open_request_def sent_all_def sys_defs Let_def sizeof_bool_def
      split: sysret.splits recv_result.splits list.splits)

text \<open>
  The test of the first message of the endpoint socket passes exactly for a message that
  is a header of type \<open>EXCHANGE_OPEN_ENDPOINT_QUERY\<close> and nothing more.
\<close>

lemma ack_test:
  assumes "valid_headers hdr"
      and "sys_recv_exchange hdr fd buf (sizeof_cpcd_exchange_buffer_t hdr + sizeof_bool) r w
             = (bytes_read, ack, w')"
  shows "size_t_of_ssize_t bytes_read = sizeof_cpcd_exchange_buffer_t hdr
           \<and> type ack = EXCHANGE_OPEN_ENDPOINT_QUERY
         \<longleftrightarrow> is_open_ack r"
proof (cases r)
  case (Recv_err e)
  with assms show ?thesis
    by (auto simp: valid_headers_def size_t_of_ssize_t_def is_open_ack_def)
next
  case (Recv_short k)
  with assms show ?thesis
    by (auto simp: valid_headers_def size_t_of_ssize_t_def is_open_ack_def min_def
        split: if_splits)
next
  case (Recv_msg m)
  with assms show ?thesis
    by (cases "payload m")
       (auto simp: valid_headers_def size_t_of_ssize_t_def min_def sizeof_bool_def
          is_open_ack_def split: if_splits)
qed

lemma open_connect_bad_ack:
  assumes "valid_headers hdr" "open_connected env fd" "\<not> is_open_ack (op_recv_ack env)"
  shows "\<exists>w'. open_connect hdr env sun_path lib_handle n open_query
                 (sizeof_cpcd_exchange_buffer_t hdr + sizeof_bool) w = (-1, None, w')
              \<and> last (trace w') = Ev_close (int fd) \<and> fd_flags w' (int fd) = None"
proof -
  obtain bytes_read ack w3 where r:
    "sys_recv_exchange hdr (int fd) open_query (sizeof_cpcd_exchange_buffer_t hdr + sizeof_bool)
       (op_recv_ack env)
       (snd (sys_connect (int fd) sun_path (op_connect env) (snd (sys_socket (op_socket env) w))))
     = (bytes_read, ack, w3)"
    by (metis prod.collapse)
  from ack_test [OF assms(1) r] assms(3)
  have bad: "size_t_of_ssize_t bytes_read \<noteq> sizeof_cpcd_exchange_buffer_t hdr
             \<or> type ack \<noteq> EXCHANGE_OPEN_ENDPOINT_QUERY"
    by auto
  from assms(2) r bad show ?thesis
    by (auto simp: open_connect_def open_connected_def succeeded_def sys_defs Let_def split_beta
        split: sysret.splits)
qed

lemma open_connect_good_ack:
  assumes "valid_headers hdr" "open_connected env fd" "is_open_ack (op_recv_ack env)"
      and "op_setsockopt env = Sys_ok 0" "0 \<le> op_mutex_init env"
  shows "\<exists>w'. open_connect hdr env sun_path lib_handle n open_query
                 (sizeof_cpcd_exchange_buffer_t hdr + sizeof_bool) w
                = (int fd, Some \<lparr>ep_id = n, sock_fd = int fd, ep_lib_handle = lib_handle\<rparr>, w')
              \<and> last (trace w') = Ev_setsockopt (int fd) SO_SNDBUF (OV_int 4087)"
proof -
  obtain bytes_read ack w3 where r:
    "sys_recv_exchange hdr (int fd) open_query (sizeof_cpcd_exchange_buffer_t hdr + sizeof_bool)
       (op_recv_ack env)
       (snd (sys_connect (int fd) sun_path (op_connect env) (snd (sys_socket (op_socket env) w))))
     = (bytes_read, ack, w3)"
    by (metis prod.collapse)
  from ack_test [OF assms(1) r] assms(3)
  have good: "size_t_of_ssize_t bytes_read = sizeof_cpcd_exchange_buffer_t hdr"
             "type ack = EXCHANGE_OPEN_ENDPOINT_QUERY"
    by auto
  from assms(2,4,5) r good show ?thesis
    by (auto simp: open_connect_def open_connected_def succeeded_def sys_defs Let_def split_beta
          DEFAULT_ENDPOINT_SOCKET_SIZE_def
        split: sysret.splits)
qed

lemma open_connect_some:
  assumes "valid_headers hdr"
      and "open_connect hdr env sun_path lib_handle n open_query
                 (sizeof_cpcd_exchange_buffer_t hdr + sizeof_bool) w = (ret, Some ep, w')"
  shows "is_open_ack (op_recv_ack env)"
proof -
  obtain fd w1 where s: "sys_socket (op_socket env) w = (fd, w1)"
    by (metis prod.collapse)
  obtain rc w2 where c: "sys_connect fd sun_path (op_connect env) w1 = (rc, w2)"
    by (metis prod.collapse)
  obtain bytes_read ack w3 where r:
    "sys_recv_exchange hdr fd open_query (sizeof_cpcd_exchange_buffer_t hdr + sizeof_bool)
       (op_recv_ack env) w2 = (bytes_read, ack, w3)"
    by (metis prod.collapse)
  from assms(2) s c r
  have "size_t_of_ssize_t bytes_read = sizeof_cpcd_exchange_buffer_t hdr
        \<and> type ack = EXCHANGE_OPEN_ENDPOINT_QUERY"
    by (auto simp: open_connect_def Let_def split: if_splits prod.splits)
  with ack_test [OF assms(1) r] show ?thesis
    by simp
qed

lemma open_connect_none:
  "open_connect hdr env sun_path lib_handle n open_query len w = (ret, None, w') \<Longrightarrow> ret = -1"
  by (auto simp: open_connect_def Let_def split_beta split: if_splits)

lemma open_request_none:
  "open_request hdr env sun_path lib_handle n w = (ret, None, w') \<Longrightarrow> ret = -1"
  by (auto simp: open_request_def Let_def split_beta split: if_splits dest: open_connect_none)

lemma open_request_some:
  assumes "valid_headers hdr"
      and "open_request hdr env sun_path lib_handle n w = (ret, Some ep, w')"
  shows "is_open_ack (op_recv_ack env)"
  using assms
  by (auto simp: open_request_def Let_def split_beta split: if_splits dest: open_connect_some)

lemma open_returns_descriptor:
  assumes "valid_headers hdr"
      and "cpc_open_endpoint hdr env handle endpoint n tx_window_size w = (ret, endpoint', w')"
      and "ret \<noteq> -1"
  shows "is_open_ack (op_recv_ack env)"
proof -
  from assms(2,3) obtain lib_handle sun_path ep
    where "open_request hdr env sun_path lib_handle n w = (ret, Some ep, w')"
    by (auto simp: cpc_open_endpoint_def Let_def
        split: if_splits option.splits prod.splits dest: open_request_none)
  with assms(1) show ?thesis
    by (rule open_request_some)
qed

lemma open_bad_ack:
  assumes "valid_headers hdr" "ep_path_fits w n" "n \<noteq> 0" "open_granted hdr env"
      and "open_connected env fd" "\<not> is_open_ack (op_recv_ack env)"
  shows "\<exists>w'. cpc_open_endpoint hdr env (Some lib_handle) (Some old) n 1 w = (-1, Some old, w')
              \<and> last (trace w') = Ev_close (int fd) \<and> fd_flags w' (int fd) = None"
proof -
  from open_request_granted [OF assms(4)] obtain reply w1
    where req: "open_request hdr env (ep_socket_path (saved_instance_name w) n) lib_handle n w
           = open_connect hdr env (ep_socket_path (saved_instance_name w) n) lib_handle n reply
               (sizeof_cpcd_exchange_buffer_t hdr + sizeof_bool) w1"
    by blast
  from open_connect_bad_ack [OF assms(1,5,6)] obtain w'
    where con: "open_connect hdr env (ep_socket_path (saved_instance_name w) n) lib_handle n reply
               (sizeof_cpcd_exchange_buffer_t hdr + sizeof_bool) w1 = (-1, None, w')"
      and "last (trace w') = Ev_close (int fd)" "fd_flags w' (int fd) = None"
    by blast
  with req assms(2,3) show ?thesis
    by (simp add: cpc_open_endpoint_def Let_def path_fits ep_path_fits_def)
qed

lemma open_good:
  assumes "valid_headers hdr" "ep_path_fits w n" "n \<noteq> 0" "open_succeeds hdr env fd"
  shows "\<exists>w'. cpc_open_endpoint hdr env (Some lib_handle) (Some old) n 1 w
                = (int fd,
                   Some (Some \<lparr>ep_id = n, sock_fd = int fd, ep_lib_handle = lib_handle\<rparr>), w')
              \<and> last (trace w') = Ev_setsockopt (int fd) SO_SNDBUF (OV_int 4087)"
proof -
  from assms(4) have g: "open_granted hdr env" and c: "open_connected env fd"
    and a: "is_open_ack (op_recv_ack env)" and s: "op_setsockopt env = Sys_ok 0"
    and m: "0 \<le> op_mutex_init env"
    by (simp_all add: open_succeeds_def)
  from open_request_granted [OF g] obtain reply w1
    where req: "open_request hdr env (ep_socket_path (saved_instance_name w) n) lib_handle n w
           = open_connect hdr env (ep_socket_path (saved_instance_name w) n) lib_handle n reply
               (sizeof_cpcd_exchange_buffer_t hdr + sizeof_bool) w1"
    by blast
  from open_connect_good_ack [OF assms(1) c a s m] obtain w'
    where con: "open_connect hdr env (ep_socket_path (saved_instance_name w) n) lib_handle n reply
               (sizeof_cpcd_exchange_buffer_t hdr + sizeof_bool) w1
             = (int fd, Some \<lparr>ep_id = n, sock_fd = int fd, ep_lib_handle = lib_handle\<rparr>, w')"
      and "last (trace w') = Ev_setsockopt (int fd) SO_SNDBUF (OV_int 4087)"
    by blast
  with req assms(2,3) show ?thesis
    by (simp add: cpc_open_endpoint_def Let_def path_fits ep_path_fits_def)
qed

text \<open>The example values satisfy the conditions.\<close>

lemma example_valid_headers: "valid_headers example_headers"
  by (simp add: valid_headers_def example_headers_def)

lemma example_ep_path: "ep_socket_path (Some ''cpcd_0'') 3 = ''/dev/shm/cpcd/cpcd_0/ep3.cpcd.sock''"
  by (simp add: ep_socket_path_def percent_s_def percent_d.simps digit_def DEFAULT_SOCKET_FOLDER_def)

lemma example_ep_path_fits: "ep_path_fits world1 3"
  by (simp add: ep_path_fits_def world1_def example_ep_path sizeof_sun_path_def)

lemma example_open_succeeds: "open_succeeds example_headers example_open_env 4"
  by (simp add: open_succeeds_def open_granted_def open_connected_def is_open_ack_def
        sent_all_def succeeded_def example_open_env_def example_headers_def sizeof_bool_def)

text \<open>
  C3, as the code has it. Of the window sizes 1 to 7 \<open>cpc_open_endpoint\<close> admits only 1.
  Once the socket path fits, every request with a \<open>tx_window_size\<close> other than 1 is
  rejected with \<open>-1\<close> and \<open>errno\<close> set to \<open>EINVAL\<close>, before any system call. A request
  with \<open>tx_window_size = 1\<close> is not rejected on account of the window size: it returns
  the descriptor of the endpoint socket when every step of the opening succeeds.
\<close>

theorem cpc_open_endpoint_window_size:
  assumes "ep_path_fits w n"
  shows "(tx_window_size \<noteq> 1 \<longrightarrow>
            cpc_open_endpoint hdr env handle endpoint n tx_window_size w
              = (-1, endpoint, w\<lparr>errno := EINVAL\<rparr>))
         \<and> (valid_headers hdr \<and> n \<noteq> 0 \<and> open_succeeds hdr env fd \<longrightarrow>
              (\<exists>w'. cpc_open_endpoint hdr env (Some lib_handle) (Some old) n 1 w
                      = (int fd,
                         Some (Some \<lparr>ep_id = n, sock_fd = int fd, ep_lib_handle = lib_handle\<rparr>),
                         w')))"
proof (intro conjI impI)
  assume "tx_window_size \<noteq> 1"
  with assms show "cpc_open_endpoint hdr env handle endpoint n tx_window_size w
                     = (-1, endpoint, w\<lparr>errno := EINVAL\<rparr>)"
    by (rule open_rejects_window)
next
  assume "valid_headers hdr \<and> n \<noteq> 0 \<and> open_succeeds hdr env fd"
  with assms open_good [of hdr w n env fd lib_handle old]
  show "\<exists>w'. cpc_open_endpoint hdr env (Some lib_handle) (Some old) n 1 w
                = (int fd,
                   Some (Some \<lparr>ep_id = n, sock_fd = int fd, ep_lib_handle = lib_handle\<rparr>), w')"
    by blast
qed

theorem cpc_open_endpoint_window_size_example:
  "cpc_open_endpoint example_headers example_open_env (Some handle0) (Some None) 3 7 world1
     = (-1, Some None, world1\<lparr>errno := EINVAL\<rparr>)
   \<and> (\<exists>w'. cpc_open_endpoint example_headers example_open_env (Some handle0) (Some None) 3 1 world1
             = (4, Some (Some \<lparr>ep_id = 3, sock_fd = 4, ep_lib_handle = handle0\<rparr>), w'))"
  using cpc_open_endpoint_window_size
          [OF example_ep_path_fits, of 7 example_headers example_open_env "Some handle0" "Some None"
             4 handle0 None]
        example_valid_headers example_open_succeeds
  by simp

theorem cpc_open_endpoint_rejects_window_2:
  "fst (cpc_open_endpoint example_headers example_open_env (Some handle0) (Some None) 3 2 world1) = -1
   \<and> errno (snd (snd (cpc_open_endpoint example_headers example_open_env (Some handle0) (Some None)
                         3 2 world1))) = EINVAL
   \<and> fst (cpc_open_endpoint example_headers example_open_env (Some handle0) (Some None) 3 1 world1) = 4"
proof -
  from open_good [OF example_valid_headers example_ep_path_fits _ example_open_succeeds,
                  of handle0 None]
  have "fst (cpc_open_endpoint example_headers example_open_env (Some handle0) (Some None) 3 1 world1)
          = 4"
    by auto
  moreover
  have "cpc_open_endpoint example_headers example_open_env (Some handle0) (Some None) 3 2 world1
          = (-1, Some None, world1\<lparr>errno := EINVAL\<rparr>)"
    by (rule open_rejects_window [OF example_ep_path_fits]) simp
  ultimately show ?thesis by simp
qed

text \<open>
  C5. A call of \<open>cpc_open_endpoint\<close> that does not return \<open>-1\<close> has read, as the first
  message of the endpoint socket, one header of type \<open>EXCHANGE_OPEN_ENDPOINT_QUERY\<close> with
  no payload. When the daemon has granted the request and the endpoint socket is
  connected, every other first message (of another size, of another type, or the end of
  the connection) makes the call close the socket and return \<open>-1\<close>, and the caller's
  endpoint structure is left as it was.
\<close>

theorem cpc_open_endpoint_server_ack:
  assumes "valid_headers hdr"
  shows "(cpc_open_endpoint hdr env handle endpoint n tx_window_size w = (ret, endpoint', w')
            \<and> ret \<noteq> -1 \<longrightarrow> is_open_ack (op_recv_ack env))
         \<and> (ep_path_fits w n \<and> n \<noteq> 0 \<and> open_granted hdr env \<and> open_connected env fd
              \<and> \<not> is_open_ack (op_recv_ack env) \<longrightarrow>
              (\<exists>w''. cpc_open_endpoint hdr env (Some lib_handle) (Some old) n 1 w
                        = (-1, Some old, w'')
                    \<and> last (trace w'') = Ev_close (int fd) \<and> fd_flags w'' (int fd) = None))"
  using assms open_returns_descriptor [of hdr env handle endpoint n tx_window_size w ret endpoint' w']
        open_bad_ack [of hdr w n env fd lib_handle old]
  by blast

theorem cpc_open_endpoint_server_ack_example:
  "is_open_ack (op_recv_ack example_open_env)
   \<and> (\<exists>w''. cpc_open_endpoint example_headers (example_open_env\<lparr>op_recv_ack := Recv_short 0\<rparr>)
               (Some handle0) (Some None) 3 1 world1 = (-1, Some None, w'')
            \<and> last (trace w'') = Ev_close 4 \<and> fd_flags w'' 4 = None)"
proof -
  from open_good [OF example_valid_headers example_ep_path_fits _ example_open_succeeds,
                  of handle0 None]
  obtain w' where run:
    "cpc_open_endpoint example_headers example_open_env (Some handle0) (Some None) 3 1 world1
       = (4, Some (Some \<lparr>ep_id = 3, sock_fd = 4, ep_lib_handle = handle0\<rparr>), w')"
    by auto
  have closed: "open_granted example_headers (example_open_env\<lparr>op_recv_ack := Recv_short 0\<rparr>)"
    "open_connected (example_open_env\<lparr>op_recv_ack := Recv_short 0\<rparr>) 4"
    "\<not> is_open_ack (op_recv_ack (example_open_env\<lparr>op_recv_ack := Recv_short 0\<rparr>))"
    by (simp_all add: open_granted_def open_connected_def is_open_ack_def sent_all_def
          succeeded_def example_open_env_def example_headers_def sizeof_bool_def)
  from cpc_open_endpoint_server_ack
         [OF example_valid_headers,
          of example_open_env "Some handle0" "Some None" 3 1 world1 4 _ w']
       run
  have good: "is_open_ack (op_recv_ack example_open_env)"
    by simp
  from cpc_open_endpoint_server_ack
         [OF example_valid_headers,
          of "example_open_env\<lparr>op_recv_ack := Recv_short 0\<rparr>" _ _ 3 _ world1 _ _ _ 4 handle0 None]
       closed example_ep_path_fits
  have "\<exists>w''. cpc_open_endpoint example_headers (example_open_env\<lparr>op_recv_ack := Recv_short 0\<rparr>)
               (Some handle0) (Some None) 3 1 world1 = (-1, Some None, w'')
            \<and> last (trace w'') = Ev_close 4 \<and> fd_flags w'' 4 = None"
    by simp
  with good show ?thesis by blast
qed

subsection \<open>Initialising\<close>

lemma collect_simps [simp]:
  "collect f (emit e w) = collect f w @ f e"
  "collect f (w\<lparr>errno := x\<rparr>) = collect f w"
  "collect f (w\<lparr>fd_flags := fl\<rparr>) = collect f w"
  "collect f (w\<lparr>saved_enable_tracing := t\<rparr>) = collect f w"
  "collect f (w\<lparr>saved_reset_callback := c\<rparr>) = collect f w"
  "collect f (w\<lparr>saved_instance_name := i\<rparr>) = collect f w"
  "collect f (w\<lparr>sigusr1_is_handled := h\<rparr>) = collect f w"
  "collect f (snd (sys_return r w)) = collect f w"
  by (simp_all add: collect_def emit_def)

lemma collect_recv [simp]:
  "collect f (snd (snd (sys_recv_exchange hdr fd buf cap r w))) = collect f w @ f (Ev_recv fd cap 0)"
  by (cases r) simp_all

lemma collect_sys [simp]:
  "collect f (snd (sys_access p r w)) = collect f w @ f (Ev_access p)"
  "collect f (snd (sys_socket r w)) = collect f w @ f Ev_socket"
  "collect f (snd (sys_connect fd p r w)) = collect f w @ f (Ev_connect fd p)"
  "collect f (snd (sys_setsockopt fd name v r w)) = collect f w @ f (Ev_setsockopt fd name v)"
  "collect f (snd (sys_close fd r w)) = collect f w @ f (Ev_close fd)"
  "collect f (snd (sys_send_exchange fd b l r w)) = collect f w @ f (Ev_send_exchange fd b l)"
  "collect f (sys_signal_SIGUSR1 w) = collect f w @ f Ev_signal_SIGUSR1"
  "collect f (sys_sleep s w) = collect f w @ f (Ev_sleep s)"
  by (simp_all add: sys_access_def sys_socket_def sys_connect_def sys_setsockopt_def sys_close_def
        sys_send_exchange_def sys_signal_SIGUSR1_def sys_sleep_def split_beta)

lemma sys_recv_exchange_frame [simp]:
  "saved_instance_name (snd (snd (sys_recv_exchange hdr fd buf cap r w))) = saved_instance_name w"
  "saved_enable_tracing (snd (snd (sys_recv_exchange hdr fd buf cap r w))) = saved_enable_tracing w"
  "saved_reset_callback (snd (snd (sys_recv_exchange hdr fd buf cap r w))) = saved_reset_callback w"
  "sigusr1_is_handled (snd (snd (sys_recv_exchange hdr fd buf cap r w))) = sigusr1_is_handled w"
  by (cases r; simp add: emit_def)+

lemma sys_sleep_frame [simp]:
  "saved_instance_name (sys_sleep s w) = saved_instance_name w"
  "saved_enable_tracing (sys_sleep s w) = saved_enable_tracing w"
  "saved_reset_callback (sys_sleep s w) = saved_reset_callback w"
  by (simp_all add: sys_sleep_def emit_def)

text \<open>What the tests of \<open>cpc_init\<close> on the values of its calls come to.\<close>

lemma sys_values:
  "fst (sys_access p r w) \<noteq> 0 \<longleftrightarrow> r \<noteq> Sys_ok 0"
  "fst (sys_socket r w) = 0 \<longleftrightarrow> r = Sys_ok 0"
  "fst (sys_connect fd p r w) < 0 \<longleftrightarrow> \<not> succeeded r"
  "fst (sys_setsockopt fd name v r w) < 0 \<longleftrightarrow> \<not> succeeded r"
  by (cases r; simp add: sys_defs succeeded_def)+

lemma sys_socket_value:
  "fst (sys_socket r w) = (case r of Sys_ok fd \<Rightarrow> int fd | Sys_err e \<Rightarrow> -1)"
  by (cases r) (simp_all add: sys_socket_def emit_def)

lemma set_pid_result:
  "fst (set_pid hdr pid sent lib_handle w) < 0
     \<longleftrightarrow> \<not> sent_all (sizeof_cpcd_exchange_buffer_t hdr + sizeof_pid_t) sent"
  by (auto simp: set_pid_def Let_def split_beta sys_defs sent_all_def split: sysret.splits)

lemma get_max_write_result:
  "fst (get_max_write hdr (ie_max_write_send env) (ie_max_write_recv env) (ie_max_write_uninit env)
          lib_handle w) < 0
     \<longleftrightarrow> \<not> max_write_reply_ok hdr env"
  by (cases "ie_max_write_recv env")
     (auto simp: get_max_write_def Let_def split_beta sys_defs sent_all_def max_write_reply_ok_def
        sizeof_uint32_t_def memcpy_uint32_into_size_t_def
        split: sysret.splits)

lemma check_version_result:
  "fst (check_version hdr (ie_version_send env) (ie_version_recv env) lib_handle w)
     \<longleftrightarrow> version_reply_ok hdr env"
  by (cases "ie_version_recv env")
     (auto simp: check_version_def Let_def split_beta sys_defs sent_all_def version_reply_ok_def
        sizeof_uint8_t_def
        split: sysret.splits list.splits)

lemma query_frames [simp]:
  "saved_instance_name (snd (set_pid hdr pid sent lib_handle w)) = saved_instance_name w"
  "saved_enable_tracing (snd (set_pid hdr pid sent lib_handle w)) = saved_enable_tracing w"
  "saved_reset_callback (snd (set_pid hdr pid sent lib_handle w)) = saved_reset_callback w"
  "sigusr1_is_handled (snd (set_pid hdr pid sent lib_handle w)) = sigusr1_is_handled w"
  "saved_instance_name (snd (get_max_write hdr sent rcv u lib_handle w)) = saved_instance_name w"
  "saved_enable_tracing (snd (get_max_write hdr sent rcv u lib_handle w)) = saved_enable_tracing w"
  "saved_reset_callback (snd (get_max_write hdr sent rcv u lib_handle w)) = saved_reset_callback w"
  "sigusr1_is_handled (snd (get_max_write hdr sent rcv u lib_handle w)) = sigusr1_is_handled w"
  "saved_instance_name (snd (check_version hdr sent rcv lib_handle w)) = saved_instance_name w"
  "saved_enable_tracing (snd (check_version hdr sent rcv lib_handle w)) = saved_enable_tracing w"
  "saved_reset_callback (snd (check_version hdr sent rcv lib_handle w)) = saved_reset_callback w"
  "sigusr1_is_handled (snd (check_version hdr sent rcv lib_handle w)) = sigusr1_is_handled w"
  by (simp_all add: set_pid_def get_max_write_def check_version_def Let_def split_beta sys_defs)

lemma query_collect [simp]:
  "collect sleep_event (snd (set_pid hdr pid sent lib_handle w)) = collect sleep_event w"
  "collect sleep_event (snd (get_max_write hdr sent rcv u lib_handle w)) = collect sleep_event w"
  "collect sleep_event (snd (check_version hdr sent rcv lib_handle w)) = collect sleep_event w"
  "collect close_event (snd (set_pid hdr pid sent lib_handle w)) = collect close_event w"
  "collect close_event (snd (get_max_write hdr sent rcv u lib_handle w)) = collect close_event w"
  "collect close_event (snd (check_version hdr sent rcv lib_handle w)) = collect close_event w"
  "collect connect_event (snd (set_pid hdr pid sent lib_handle w)) = collect connect_event w"
  "collect connect_event (snd (get_max_write hdr sent rcv u lib_handle w)) = collect connect_event w"
  "collect connect_event (snd (check_version hdr sent rcv lib_handle w)) = collect connect_event w"
  by (simp_all add: set_pid_def get_max_write_def check_version_def Let_def split_beta)

lemma init_connect_frame [simp]:
  "saved_instance_name (snd (snd (init_connect hdr env sun_path ptr w))) = saved_instance_name w"
  "saved_enable_tracing (snd (snd (init_connect hdr env sun_path ptr w))) = saved_enable_tracing w"
  "saved_reset_callback (snd (snd (init_connect hdr env sun_path ptr w))) = saved_reset_callback w"
  "sigusr1_is_handled (snd (snd (init_connect hdr env sun_path ptr w))) = sigusr1_is_handled w"
  by (simp_all add: init_connect_def Let_def split_beta sys_defs split: option.splits)

lemma init_connect_collect [simp]:
  "collect sleep_event (snd (snd (init_connect hdr env sun_path ptr w))) = collect sleep_event w"
  "collect close_event (snd (snd (init_connect hdr env sun_path ptr w))) = collect close_event w"
  by (simp_all add: init_connect_def Let_def split_beta split: option.splits)

lemma init_connect_connects:
  "collect connect_event (snd (snd (init_connect hdr env sun_path ptr w)))
     = collect connect_event w @
       (if ie_access env = Sys_ok 0 \<and> ie_malloc env \<noteq> None \<and> ie_socket env \<noteq> Sys_ok 0
        then [sun_path] else [])"
  by (simp add: init_connect_def Let_def split_beta sys_values split: option.splits)

lemma init_connect_result:
  "fst (init_connect hdr env sun_path ptr w) =
     (if ie_access env = Sys_ok 0 \<and> ie_malloc env \<noteq> None
         \<and> ie_socket env \<noteq> Sys_ok 0 \<and> succeeded (ie_connect env) \<and> succeeded (ie_setsockopt env)
         \<and> sent_all (sizeof_cpcd_exchange_buffer_t hdr + sizeof_pid_t) (ie_set_pid_send env)
         \<and> max_write_reply_ok hdr env \<and> version_reply_ok hdr env \<and> 0 \<le> ie_mutex_init env
      then 0 else -1)"
  by (simp add: init_connect_def Let_def split_beta sys_values set_pid_result
        get_max_write_result check_version_result
      split: option.splits)

lemma memcpy_take [simp]:
  "memcpy_uint32_into_size_t u (take 4 p) = memcpy_uint32_into_size_t u p"
  by (simp add: memcpy_uint32_into_size_t_def sizeof_uint32_t_def)

lemma init_connect_ptr:
  "fst (snd (init_connect hdr env sun_path ptr w))
     = (if fst (init_connect hdr env sun_path ptr w) = 0 then Some (new_handle env) else ptr)"
  apply (simp add: init_connect_result)
  apply (simp add: init_connect_def Let_def split_beta sys_values set_pid_result
        get_max_write_result check_version_result sys_socket_value new_handle_def
      split: option.splits)
  apply (auto simp: get_max_write_def max_write_reply_ok_def Let_def split_beta
        sys_send_exchange_def sent_all_def sizeof_uint32_t_def
      split: recv_result.splits sysret.splits)
  done

lemma cpc_init_outcome:
  assumes "saved_instance_name w \<noteq> None \<or> ie_strdup env"
  shows "fst (cpc_init hdr env (Some ptr) instance_name enable_tracing reset_callback w)
           = (if init_ok hdr env (instance_name_used w instance_name) then 0 else -1)"
    and "fst (snd (cpc_init hdr env (Some ptr) instance_name enable_tracing reset_callback w))
           = Some (if init_ok hdr env (instance_name_used w instance_name)
                   then Some (new_handle env) else ptr)"
proof -
  let ?name = "instance_name_used w instance_name"
  have both: "fst (cpc_init hdr env (Some ptr) instance_name enable_tracing reset_callback w)
           = (if init_ok hdr env ?name then 0 else -1)
         \<and> fst (snd (cpc_init hdr env (Some ptr) instance_name enable_tracing reset_callback w))
           = Some (if init_ok hdr env ?name then Some (new_handle env) else ptr)"
  proof (cases "ctrl_path_fits ?name")
    case True
    with assms show ?thesis
      by (auto simp: cpc_init_def save_parameters_def Let_def split_beta path_fits
            ctrl_path_fits_def instance_name_used_def init_connect_ptr init_connect_result
            init_ok_def
          split: option.splits)
  next
    case False
    with assms path_too_long [of "ctrl_socket_path (Some ?name)"] show ?thesis
      by (auto simp: cpc_init_def save_parameters_def Let_def split_beta ctrl_path_fits_def
            instance_name_used_def init_ok_def
          split: option.splits)
  qed
  from both
  show "fst (cpc_init hdr env (Some ptr) instance_name enable_tracing reset_callback w)
           = (if init_ok hdr env ?name then 0 else -1)"
    and "fst (snd (cpc_init hdr env (Some ptr) instance_name enable_tracing reset_callback w))
           = Some (if init_ok hdr env ?name then Some (new_handle env) else ptr)"
    by simp_all
qed

lemma cpc_init_result:
  assumes "saved_instance_name w = Some name"
  shows "fst (cpc_init hdr env (Some ptr) instance_name enable_tracing reset_callback w)
           = (if init_ok hdr env name then 0 else -1)"
    and "fst (snd (cpc_init hdr env (Some ptr) instance_name enable_tracing reset_callback w))
           = Some (if init_ok hdr env name then Some (new_handle env) else ptr)"
  using assms cpc_init_outcome [of w env hdr ptr instance_name enable_tracing reset_callback]
  by (simp_all add: instance_name_used_def)


lemma cpc_init_collect [simp]:
  "collect sleep_event
     (snd (snd (cpc_init hdr env handle instance_name enable_tracing reset_callback w)))
   = collect sleep_event w"
  "collect close_event
     (snd (snd (cpc_init hdr env handle instance_name enable_tracing reset_callback w)))
   = collect close_event w"
  by (simp_all add: cpc_init_def save_parameters_def Let_def split_beta split: option.splits)




lemma cpc_init_needs_version:
  assumes "\<not> version_reply_ok hdr env"
  shows "fst (cpc_init hdr env handle instance_name enable_tracing reset_callback w) = -1"
    and "fst (snd (cpc_init hdr env handle instance_name enable_tracing reset_callback w)) = handle"
  using assms
  by (auto simp: cpc_init_def Let_def split_beta init_connect_result init_connect_ptr
      split: option.splits)

lemma cpc_init_too_long:
  assumes "saved_instance_name w \<noteq> None \<or> ie_strdup env"
      and "\<not> ctrl_path_fits (instance_name_used w instance_name)"
  shows "fst (cpc_init hdr env handle instance_name enable_tracing reset_callback w) = -1"
    and "errno (snd (snd (cpc_init hdr env handle instance_name enable_tracing reset_callback w)))
           = ERANGE"
    and "trace (snd (snd (cpc_init hdr env handle instance_name enable_tracing reset_callback w)))
           = trace w"
  using assms
        path_too_long [of "ctrl_socket_path (Some (instance_name_used w instance_name))"]
  by (auto simp: cpc_init_def save_parameters_def Let_def split_beta ctrl_path_fits_def
        instance_name_used_def
      split: option.splits)

lemma cpc_init_connects:
  "collect connect_event
     (snd (snd (cpc_init hdr env handle instance_name enable_tracing reset_callback w)))
   = collect connect_event w @
     (if (saved_instance_name w \<noteq> None \<or> ie_strdup env)
         \<and> ctrl_path_fits (instance_name_used w instance_name) \<and> handle \<noteq> None
         \<and> ie_access env = Sys_ok 0 \<and> ie_malloc env \<noteq> None \<and> ie_socket env \<noteq> Sys_ok 0
      then [ctrl_socket_path (Some (instance_name_used w instance_name))] else [])"
proof (cases "ctrl_path_fits (instance_name_used w instance_name)")
  case True
  then show ?thesis
    by (auto simp: cpc_init_def save_parameters_def Let_def split_beta ctrl_path_fits_def
          instance_name_used_def path_fits init_connect_connects
        split: option.splits)
next
  case False
  with path_too_long [of "ctrl_socket_path (Some (instance_name_used w instance_name))"]
  show ?thesis
    by (auto simp: cpc_init_def save_parameters_def Let_def split_beta ctrl_path_fits_def
          instance_name_used_def
        split: option.splits)
qed

lemma cpc_init_success:
  assumes "fst (cpc_init hdr env handle instance_name enable_tracing reset_callback w) = 0"
  shows "(saved_instance_name w \<noteq> None \<or> ie_strdup env)
         \<and> ctrl_path_fits (instance_name_used w instance_name) \<and> handle \<noteq> None
         \<and> ie_access env = Sys_ok 0 \<and> ie_malloc env \<noteq> None \<and> ie_socket env \<noteq> Sys_ok 0"
proof (cases "ctrl_path_fits (instance_name_used w instance_name)")
  case True
  with assms show ?thesis
    by (auto simp: cpc_init_def save_parameters_def Let_def split_beta ctrl_path_fits_def
          instance_name_used_def path_fits init_connect_result
        split: option.splits if_splits)
next
  case False
  with assms path_too_long [of "ctrl_socket_path (Some (instance_name_used w instance_name))"]
  show ?thesis
    by (auto simp: cpc_init_def save_parameters_def Let_def split_beta ctrl_path_fits_def
          instance_name_used_def
        split: option.splits if_splits)
qed

subsection \<open>Restarting\<close>







lemma example_init_ok: "init_ok example_headers example_init_env ''cpcd_0''"
  by (simp add: init_ok_def ctrl_path_fits_def ctrl_socket_path_def percent_s_def
        DEFAULT_SOCKET_FOLDER_def sizeof_sun_path_def example_init_env_def example_headers_def
        succeeded_def sent_all_def sizeof_pid_t_def max_write_reply_ok_def version_reply_ok_def
        sizeof_uint32_t_def sizeof_uint8_t_def ssize_t_of_size_t_def
        memcpy_uint32_into_size_t_def)



text \<open>
  C4. When the daemon's reply to the version query carries a version byte other than
  \<open>LIBRARY_API_VERSION\<close>, \<open>check_version\<close> (whose query has been sent) returns false with
  \<open>errno\<close> set to \<open>ELIBBAD\<close>, and \<open>cpc_init\<close> returns \<open>-1\<close> and leaves the caller's handle
  as it was.
\<close>

theorem version_mismatch_aborts_init:
  assumes "v \<noteq> LIBRARY_API_VERSION hdr"
  shows "(sent_all (sizeof_cpcd_exchange_buffer_t hdr + sizeof_uint8_t) sent \<longrightarrow>
            (\<exists>w'. check_version hdr sent
                     (Recv_msg \<lparr>type = t, endpoint_number = e, payload = [v]\<rparr>) lib_handle w
                     = (False, w')
                  \<and> errno w' = ELIBBAD))
         \<and> (ie_version_recv env = Recv_msg \<lparr>type = t, endpoint_number = e, payload = [v]\<rparr> \<longrightarrow>
              (\<exists>w'. cpc_init hdr env handle instance_name enable_tracing reset_callback w
                      = (-1, handle, w')))"
proof (intro conjI impI)
  assume "sent_all (sizeof_cpcd_exchange_buffer_t hdr + sizeof_uint8_t) sent"
  with assms
  show "\<exists>w'. check_version hdr sent
                (Recv_msg \<lparr>type = t, endpoint_number = e, payload = [v]\<rparr>) lib_handle w
                = (False, w')
             \<and> errno w' = ELIBBAD"
    by (auto simp: check_version_def Let_def sys_defs sent_all_def sizeof_uint8_t_def
        split: sysret.splits)
next
  assume "ie_version_recv env = Recv_msg \<lparr>type = t, endpoint_number = e, payload = [v]\<rparr>"
  with assms have "\<not> version_reply_ok hdr env"
    by (simp add: version_reply_ok_def)
  from cpc_init_needs_version [OF this, of handle instance_name enable_tracing reset_callback w]
  show "\<exists>w'. cpc_init hdr env handle instance_name enable_tracing reset_callback w
               = (-1, handle, w')"
    by (metis prod.collapse)
qed

theorem version_mismatch_aborts_init_example:
  "(\<exists>w'. check_version example_headers (Sys_ok 3)
            (Recv_msg \<lparr>type = EXCHANGE_VERSION_QUERY, endpoint_number = 0, payload = [3]\<rparr>)
            handle0 world1 = (False, w')
         \<and> errno w' = ELIBBAD)
   \<and> (\<exists>w'. cpc_init example_headers
              (example_init_env\<lparr>ie_version_recv :=
                 Recv_msg \<lparr>type = EXCHANGE_VERSION_QUERY, endpoint_number = 0, payload = [3]\<rparr>\<rparr>)
              (Some None) None False None world0 = (-1, Some None, w'))"
  using version_mismatch_aborts_init
          [of 3 example_headers "Sys_ok 3" EXCHANGE_VERSION_QUERY 0 handle0 world1]
        version_mismatch_aborts_init
          [of 3 example_headers _ EXCHANGE_VERSION_QUERY 0 _ world0
             "example_init_env\<lparr>ie_version_recv :=
                 Recv_msg \<lparr>type = EXCHANGE_VERSION_QUERY, endpoint_number = 0, payload = [3]\<rparr>\<rparr>"
             "Some None" None False None]
  by (simp add: example_headers_def sent_all_def sizeof_uint8_t_def)

subsection \<open>The socket paths\<close>

lemma open_connect_connects:
  "collect connect_event (snd (snd (open_connect hdr env sun_path lib_handle n q len w)))
     = collect connect_event w @ (if op_socket env \<noteq> Sys_ok 0 then [sun_path] else [])"
  by (simp add: open_connect_def Let_def split_beta sys_values)

lemma send_value:
  "fst (sys_send_exchange fd b l r w) = (case r of Sys_ok k \<Rightarrow> int k | Sys_err e \<Rightarrow> -1)"
  by (cases r) (simp_all add: sys_send_exchange_def)

lemma open_request_reaches:
  "\<not> open_granted hdr env \<Longrightarrow>
   collect connect_event (snd (snd (open_request hdr env sun_path lib_handle n w)))
     = collect connect_event w"
  by (cases "op_recv_reply env")
     (auto simp: open_request_def open_granted_def Let_def split_beta send_value sizeof_bool_def
        sent_all_def
      split: list.splits sysret.splits)

lemma open_request_connects:
  "collect connect_event (snd (snd (open_request hdr env sun_path lib_handle n w)))
     = collect connect_event w @
       (if open_granted hdr env \<and> op_socket env \<noteq> Sys_ok 0 then [sun_path] else [])"
proof (cases "open_granted hdr env")
  case True
  from open_request_granted [OF True, of sun_path lib_handle n w] obtain reply where
    "open_request hdr env sun_path lib_handle n w
           = open_connect hdr env sun_path lib_handle n reply
               (sizeof_cpcd_exchange_buffer_t hdr + sizeof_bool)
               (w\<lparr>trace := trace w @
                    [Ev_send_exchange (ctrl_sock_fd lib_handle)
                       \<lparr>type = EXCHANGE_OPEN_ENDPOINT_QUERY, endpoint_number = n, payload = [0]\<rparr>
                       (sizeof_cpcd_exchange_buffer_t hdr + sizeof_bool),
                     Ev_recv (ctrl_sock_fd lib_handle)
                       (sizeof_cpcd_exchange_buffer_t hdr + sizeof_bool) 0]\<rparr>)"
    by blast
  with True show ?thesis
    by (simp add: open_connect_connects) (simp add: collect_def)
next
  case False
  then show ?thesis
    by (simp add: open_request_reaches)
qed


lemma open_connect_no_socket:
  "op_socket env = Sys_ok 0 \<Longrightarrow> fst (open_connect hdr env sun_path lib_handle n q len w) = -1"
  by (simp add: open_connect_def Let_def split_beta sys_values)

lemma open_request_refused:
  "\<not> open_granted hdr env \<Longrightarrow> fst (open_request hdr env sun_path lib_handle n w) = -1"
  by (cases "op_recv_reply env")
     (auto simp: open_request_def open_granted_def Let_def split_beta send_value sizeof_bool_def
        sent_all_def
      split: list.splits sysret.splits)

lemma open_request_reached:
  assumes "fst (open_request hdr env sun_path lib_handle n w) \<noteq> -1"
  shows "open_granted hdr env \<and> op_socket env \<noteq> Sys_ok 0"
proof -
  from assms open_request_refused have g: "open_granted hdr env"
    by blast
  from open_request_granted [OF g, of sun_path lib_handle n w] assms open_connect_no_socket
  show ?thesis
    using g by force
qed

lemma cpc_open_endpoint_connects:
  "collect connect_event (snd (snd (cpc_open_endpoint hdr env handle endpoint n tx_window_size w)))
     = collect connect_event w @
       (if open_reaches_connect hdr env handle endpoint n tx_window_size w
        then [ep_socket_path (saved_instance_name w) n] else [])"
proof (cases "ep_path_fits w n")
  case True
  then show ?thesis
    by (auto simp: cpc_open_endpoint_def Let_def split_beta path_fits ep_path_fits_def
          open_reaches_connect_def open_request_connects
        split: option.splits)
next
  case False
  with path_too_long [of "ep_socket_path (saved_instance_name w) n"] show ?thesis
    by (auto simp: cpc_open_endpoint_def Let_def ep_path_fits_def open_reaches_connect_def)
qed

lemma cpc_open_endpoint_reached:
  assumes "fst (cpc_open_endpoint hdr env handle endpoint n tx_window_size w) \<noteq> -1"
  shows "open_reaches_connect hdr env handle endpoint n tx_window_size w"
proof (cases "ep_path_fits w n")
  case True
  with assms open_request_reached [of hdr env "ep_socket_path (saved_instance_name w) n" _ n w]
  show ?thesis
    by (auto simp: cpc_open_endpoint_def Let_def split_beta path_fits ep_path_fits_def
          open_reaches_connect_def
        split: option.splits if_splits)
next
  case False
  with assms path_too_long [of "ep_socket_path (saved_instance_name w) n"] show ?thesis
    by (auto simp: cpc_open_endpoint_def Let_def ep_path_fits_def)
qed

lemma cpc_open_endpoint_too_long:
  assumes "\<not> ep_path_fits w n"
  shows "cpc_open_endpoint hdr env handle endpoint n tx_window_size w
           = (-1, endpoint, w\<lparr>errno := ERANGE\<rparr>)"
  using assms path_too_long [of "ep_socket_path (saved_instance_name w) n"]
  by (auto simp: cpc_open_endpoint_def Let_def ep_path_fits_def)


text \<open>
  C8. Every \<open>connect\<close> of \<open>cpc_init\<close> is to the path
  \<open>DEFAULT_SOCKET_FOLDER/cpcd/<instance>/ctrl.cpcd.sock\<close> of the instance name it works
  with, and a call that returns 0 has made one. Every \<open>connect\<close> of \<open>cpc_open_endpoint\<close>
  is to \<open>DEFAULT_SOCKET_FOLDER/cpcd/<instance>/ep<N>.cpcd.sock\<close> for the saved instance
  name and the decimal endpoint number, and a call that does not return \<open>-1\<close> has made
  one. A path of \<open>sizeof(sun_path) - 1\<close> characters or more, and so every path that does
  not fit the buffer, makes either function return \<open>-1\<close> with \<open>errno\<close> set to \<open>ERANGE\<close>
  before any system call.
\<close>

theorem library_socket_paths:
  "(cpc_init hdr ienv handle instance_name enable_tracing reset_callback w = (ret, handle', w')
      \<and> path = DEFAULT_SOCKET_FOLDER @ ''/cpcd/'' @ instance_name_used w instance_name
                  @ ''/ctrl.cpcd.sock'' \<longrightarrow>
      (collect connect_event w' = collect connect_event w
         \<or> collect connect_event w' = collect connect_event w @ [path])
      \<and> (ret = 0 \<longrightarrow> collect connect_event w' = collect connect_event w @ [path])
      \<and> ((saved_instance_name w \<noteq> None \<or> ie_strdup ienv) \<and> sizeof_sun_path - 1 \<le> length path
            \<longrightarrow> ret = -1 \<and> errno w' = ERANGE \<and> trace w' = trace w))
   \<and> (cpc_open_endpoint hdr oenv lib endpoint n tx_window_size w = (r, endpoint', w'')
        \<and> ep_path = DEFAULT_SOCKET_FOLDER @ ''/cpcd/'' @ percent_s (saved_instance_name w)
                       @ ''/ep'' @ percent_d (unat n) @ ''.cpcd.sock'' \<longrightarrow>
        (collect connect_event w'' = collect connect_event w
           \<or> collect connect_event w'' = collect connect_event w @ [ep_path])
        \<and> (r \<noteq> -1 \<longrightarrow> collect connect_event w'' = collect connect_event w @ [ep_path])
        \<and> (sizeof_sun_path - 1 \<le> length ep_path
              \<longrightarrow> r = -1 \<and> errno w'' = ERANGE \<and> trace w'' = trace w))"
proof (intro conjI impI)
  assume a: "cpc_init hdr ienv handle instance_name enable_tracing reset_callback w
               = (ret, handle', w')
             \<and> path = DEFAULT_SOCKET_FOLDER @ ''/cpcd/'' @ instance_name_used w instance_name
                  @ ''/ctrl.cpcd.sock''"
  then have p: "path = ctrl_socket_path (Some (instance_name_used w instance_name))"
    by (simp add: ctrl_socket_path_def percent_s_def)
  from a have w': "w' = snd (snd (cpc_init hdr ienv handle instance_name enable_tracing
                                   reset_callback w))"
      and ret: "ret = fst (cpc_init hdr ienv handle instance_name enable_tracing reset_callback w)"
    by simp_all
  show "collect connect_event w' = collect connect_event w
          \<or> collect connect_event w' = collect connect_event w @ [path]"
    unfolding w' p by (simp add: cpc_init_connects)
  show "collect connect_event w' = collect connect_event w @ [path]" if "ret = 0"
    using cpc_init_success [of hdr ienv handle instance_name enable_tracing reset_callback w] that
    unfolding w' p ret by (simp add: cpc_init_connects)
  show "ret = -1" "errno w' = ERANGE" "trace w' = trace w"
    if "(saved_instance_name w \<noteq> None \<or> ie_strdup ienv) \<and> sizeof_sun_path - 1 \<le> length path"
    using that cpc_init_too_long [of w ienv instance_name hdr handle enable_tracing reset_callback]
    unfolding w' p ret by (simp_all add: ctrl_path_fits_def)
next
  assume a: "cpc_open_endpoint hdr oenv lib endpoint n tx_window_size w = (r, endpoint', w'')
             \<and> ep_path = DEFAULT_SOCKET_FOLDER @ ''/cpcd/'' @ percent_s (saved_instance_name w)
                       @ ''/ep'' @ percent_d (unat n) @ ''.cpcd.sock''"
  then have p: "ep_path = ep_socket_path (saved_instance_name w) n"
    by (simp add: ep_socket_path_def)
  from a have w'': "w'' = snd (snd (cpc_open_endpoint hdr oenv lib endpoint n tx_window_size w))"
      and r: "r = fst (cpc_open_endpoint hdr oenv lib endpoint n tx_window_size w)"
    by simp_all
  show "collect connect_event w'' = collect connect_event w
          \<or> collect connect_event w'' = collect connect_event w @ [ep_path]"
    unfolding w'' p by (simp add: cpc_open_endpoint_connects)
  show "collect connect_event w'' = collect connect_event w @ [ep_path]" if "r \<noteq> -1"
    using cpc_open_endpoint_reached [of hdr oenv lib endpoint n tx_window_size w] that
    unfolding w'' p r by (simp add: cpc_open_endpoint_connects)
  show "r = -1" "errno w'' = ERANGE" "trace w'' = trace w"
    if "sizeof_sun_path - 1 \<le> length ep_path"
    using that cpc_open_endpoint_too_long [of w n hdr oenv lib endpoint tx_window_size]
    unfolding w'' p r by (simp_all add: ep_path_fits_def)
qed

theorem library_socket_paths_example:
  "collect connect_event
     (snd (snd (cpc_init example_headers example_init_env (Some None) None False None world0)))
     = [''/dev/shm/cpcd/cpcd_0/ctrl.cpcd.sock'']
   \<and> collect connect_event
       (snd (snd (cpc_open_endpoint example_headers example_open_env (Some handle0) (Some None)
                    3 1 world1)))
     = [''/dev/shm/cpcd/cpcd_0/ep3.cpcd.sock'']
   \<and> errno (snd (snd (cpc_init example_headers example_init_env (Some None)
                         (Some (replicate 100 CHR ''a'')) False None world0))) = ERANGE"
proof -
  let ?init = "cpc_init example_headers example_init_env (Some None) None False None world0"
  let ?long = "cpc_init example_headers example_init_env (Some None)
                 (Some (replicate 100 CHR ''a'')) False None world0"
  let ?open = "cpc_open_endpoint example_headers example_open_env (Some handle0) (Some None)
                 3 1 world1"
  have none: "collect connect_event world0 = []" "collect connect_event world1 = []"
    by (simp_all add: collect_def world0_def world1_def)
  have used: "instance_name_used world0 None = ''cpcd_0''"
    by (simp add: instance_name_used_def world0_def DEFAULT_INSTANCE_NAME_def)
  have copy: "saved_instance_name world0 \<noteq> None \<or> ie_strdup example_init_env"
    by (simp add: example_init_env_def)
  have ok: "fst ?init = 0"
    using example_init_ok cpc_init_outcome(1) [OF copy, of example_headers None None False None]
    by (simp add: used)
  have init_run: "?init = (fst ?init, fst (snd ?init), snd (snd ?init))
      \<and> ''/dev/shm/cpcd/cpcd_0/ctrl.cpcd.sock''
          = DEFAULT_SOCKET_FOLDER @ ''/cpcd/'' @ instance_name_used world0 None @ ''/ctrl.cpcd.sock''"
    by (simp add: used DEFAULT_SOCKET_FOLDER_def)
  from library_socket_paths [THEN conjunct1, THEN mp, OF init_run] ok none
  have one: "collect connect_event (snd (snd ?init)) = [''/dev/shm/cpcd/cpcd_0/ctrl.cpcd.sock'']"
    by simp
  from open_good [OF example_valid_headers example_ep_path_fits _ example_open_succeeds,
                  of handle0 None]
  have descriptor: "fst ?open \<noteq> -1"
    by auto
  have open_run: "?open = (fst ?open, fst (snd ?open), snd (snd ?open))
      \<and> ''/dev/shm/cpcd/cpcd_0/ep3.cpcd.sock''
          = DEFAULT_SOCKET_FOLDER @ ''/cpcd/'' @ percent_s (saved_instance_name world1)
              @ ''/ep'' @ percent_d (unat (3 :: 8 word)) @ ''.cpcd.sock''"
    using example_ep_path by (simp add: ep_socket_path_def world1_def)
  from library_socket_paths [THEN conjunct2, THEN mp, OF open_run] descriptor none
  have two: "collect connect_event (snd (snd ?open)) = [''/dev/shm/cpcd/cpcd_0/ep3.cpcd.sock'']"
    by simp
  have long_run: "?long = (fst ?long, fst (snd ?long), snd (snd ?long))
      \<and> DEFAULT_SOCKET_FOLDER @ ''/cpcd/'' @ replicate 100 CHR ''a'' @ ''/ctrl.cpcd.sock''
          = DEFAULT_SOCKET_FOLDER @ ''/cpcd/''
              @ instance_name_used world0 (Some (replicate 100 CHR ''a'')) @ ''/ctrl.cpcd.sock''"
    by (simp add: instance_name_used_def world0_def)
  have long: "sizeof_sun_path - 1
      \<le> length (DEFAULT_SOCKET_FOLDER @ ''/cpcd/'' @ replicate 100 CHR ''a'' @ ''/ctrl.cpcd.sock'')"
    by (simp add: sizeof_sun_path_def)
  from library_socket_paths [THEN conjunct1, THEN mp, OF long_run] copy long
  have three: "errno (snd (snd ?long)) = ERANGE"
    by simp
  from one two three show ?thesis by blast
qed

subsection \<open>The bound on writes\<close>

text \<open>
  \<open>cpc_write_endpoint\<close> compares \<open>data_length\<close> with the \<open>max_write_size\<close> of the handle
  of the endpoint: a longer write returns \<open>-1\<close> with \<open>errno\<close> set to \<open>EINVAL\<close> and nothing is
  sent.
\<close>

theorem cpc_write_endpoint_bound:
  assumes "max_write_size (ep_lib_handle ep) < data_length"
  shows "cpc_write_endpoint hdr sent (Some ep) data data_length flags w
           = (Returns (-1), w\<lparr>errno := EINVAL\<rparr>)"
  using assms by (simp add: cpc_write_endpoint_def split: option.splits)

theorem cpc_write_endpoint_bound_example:
  "cpc_write_endpoint example_headers (Sys_ok 4088) (Some ep0) (Some example_data) 4088 0 world2
     = (Returns (-1), world2\<lparr>errno := EINVAL\<rparr>)"
  using cpc_write_endpoint_bound [of ep0 4088 example_headers "Sys_ok 4088"
          "Some example_data" 0 world2]
  by (simp add: ep0_def handle0_def)

text \<open>
  A successful \<open>cpc_open_endpoint\<close> has set the send buffer of the endpoint socket to
  \<open>DEFAULT_ENDPOINT_SOCKET_SIZE\<close>, 4087 bytes, as its last system call.
\<close>

theorem cpc_open_endpoint_send_buffer:
  assumes "valid_headers hdr" "ep_path_fits w n" "n \<noteq> 0" "open_succeeds hdr env fd"
  shows "last (trace (snd (snd (cpc_open_endpoint hdr env (Some lib_handle) (Some old) n 1 w))))
           = Ev_setsockopt (int fd) SO_SNDBUF (OV_int 4087)"
  using open_good [OF assms, of lib_handle old] by auto

theorem cpc_open_endpoint_send_buffer_example:
  "last (trace (snd (snd (cpc_open_endpoint example_headers example_open_env (Some handle0)
                            (Some None) 3 1 world1))))
     = Ev_setsockopt 4 SO_SNDBUF (OV_int 4087)"
  using cpc_open_endpoint_send_buffer
          [OF example_valid_headers example_ep_path_fits _ example_open_succeeds, of handle0 None]
  by simp

text \<open>
  The \<open>max_write_size\<close> that a successful \<open>cpc_init\<close> stores in the handle is the value of
  the four payload bytes of the daemon's reply when the local variable of \<open>get_max_write\<close>
  held less than \<open>2 ^ 32\<close> before the copy.
\<close>

lemma le_value_bound: "le_value bs < 256 ^ length bs"
proof (induction bs)
  case Nil
  then show ?case by simp
next
  case (Cons b bs)
  have "unat b < 256"
    using unsigned_less [of b] by simp
  with Cons show ?case
    by simp
qed

theorem cpc_init_stores_reported_size:
  assumes "fst (cpc_init hdr env (Some ptr) instance_name enable_tracing reset_callback w) = 0"
      and "ie_max_write_recv env = Recv_msg m" "ie_max_write_uninit env < 2 ^ 32"
  shows "\<exists>lib_handle.
           fst (snd (cpc_init hdr env (Some ptr) instance_name enable_tracing reset_callback w))
             = Some (Some lib_handle)
           \<and> max_write_size lib_handle = le_value (take 4 (payload m))"
proof -
  have "le_value (take 4 (payload m)) < 256 ^ length (take 4 (payload m))"
    by (rule le_value_bound)
  also have "\<dots> \<le> 256 ^ 4"
    by (rule power_increasing) simp_all
  finally have small: "le_value (take 4 (payload m)) < 2 ^ 32"
    by simp
  then have "le_value (take 4 (payload m)) mod 2 ^ 64 = le_value (take 4 (payload m))"
    by simp
  with small assms(2,3)
  have size: "max_write_size (new_handle env) = le_value (take 4 (payload m))"
    by (simp add: new_handle_def memcpy_uint32_into_size_t_def ssize_t_of_size_t_def
          sizeof_uint32_t_def)
  from assms(1) have "fst (snd (cpc_init hdr env (Some ptr) instance_name enable_tracing
                                  reset_callback w)) = Some (Some (new_handle env))"
    by (auto simp: cpc_init_def Let_def split_beta init_connect_ptr split: option.splits if_splits)
  with size show ?thesis by simp
qed

theorem cpc_init_stores_reported_size_example:
  "\<exists>lib_handle.
     fst (snd (cpc_init example_headers example_init_env (Some None) None False None world1))
       = Some (Some lib_handle)
     \<and> max_write_size lib_handle = 4087"
proof -
  have name: "saved_instance_name world1 = Some ''cpcd_0''"
    by (simp add: world1_def)
  have ok: "fst (cpc_init example_headers example_init_env (Some None) None False None world1) = 0"
    using cpc_init_result(1) [OF name, of example_headers example_init_env None None False None]
          example_init_ok
    by simp
  from cpc_init_stores_reported_size
         [OF ok, of "\<lparr>type = EXCHANGE_MAX_WRITE_SIZE_QUERY, endpoint_number = 0,
                        payload = [0xF7, 0x0F, 0, 0]\<rparr>"]
  show ?thesis
    by (simp add: example_init_env_def)
qed

text \<open>
  C6, where the code departs from it. The daemon reports a maximum write size of 4087 and
  the local variable of \<open>get_max_write\<close> holds \<open>0x100000000\<close> before the copy of the four
  reported bytes. \<open>cpc_init\<close> succeeds and stores \<open>0x100000FF7\<close> as \<open>max_write_size\<close>,
  \<open>cpc_open_endpoint\<close> opens endpoint 3 on that handle, and a write of 4088 bytes on the
  endpoint is sent and returns 4088.
\<close>

theorem write_bound_with_uninitialised_high_bytes:
  "cpc_init example_headers example_uninit_env (Some None) None False None world0
     = (0, Some (Some \<lparr>ctrl_sock_fd = 3, max_write_size = 4294971383\<rparr>),
        snd (snd (cpc_init example_headers example_uninit_env (Some None) None False None world0)))
   \<and> fst (snd (cpc_open_endpoint example_headers example_open_env
                  (Some \<lparr>ctrl_sock_fd = 3, max_write_size = 4294971383\<rparr>) (Some None) 3 1 world1))
     = Some (Some \<lparr>ep_id = 3, sock_fd = 4,
                   ep_lib_handle = \<lparr>ctrl_sock_fd = 3, max_write_size = 4294971383\<rparr>\<rparr>)
   \<and> length example_data = 4088
   \<and> cpc_write_endpoint example_headers (Sys_ok 4088)
        (Some \<lparr>ep_id = 3, sock_fd = 4,
                ep_lib_handle = \<lparr>ctrl_sock_fd = 3, max_write_size = 4294971383\<rparr>\<rparr>)
        (Some example_data) 4088 0 world2
     = (Returns 4088, world2\<lparr>trace := [Ev_send 4 example_data 0]\<rparr>)"
proof -
  have used: "instance_name_used world0 None = ''cpcd_0''"
    by (simp add: instance_name_used_def world0_def DEFAULT_INSTANCE_NAME_def)
  have copy: "saved_instance_name world0 \<noteq> None \<or> ie_strdup example_uninit_env"
    by (simp add: example_uninit_env_def example_init_env_def)
  have ok: "init_ok example_headers example_uninit_env ''cpcd_0''"
    by (simp add: init_ok_def ctrl_path_fits_def ctrl_socket_path_def percent_s_def
        DEFAULT_SOCKET_FOLDER_def sizeof_sun_path_def example_init_env_def example_headers_def
        example_uninit_env_def
        succeeded_def sent_all_def sizeof_pid_t_def max_write_reply_ok_def version_reply_ok_def
        sizeof_uint32_t_def sizeof_uint8_t_def ssize_t_of_size_t_def
        memcpy_uint32_into_size_t_def)
  have handle: "new_handle example_uninit_env = \<lparr>ctrl_sock_fd = 3, max_write_size = 4294971383\<rparr>"
    by (simp add: new_handle_def example_uninit_env_def example_init_env_def
          ssize_t_of_size_t_def memcpy_uint32_into_size_t_def sizeof_uint32_t_def)
  from cpc_init_outcome [OF copy, of example_headers None None False None] ok handle used
  have init: "cpc_init example_headers example_uninit_env (Some None) None False None world0
     = (0, Some (Some \<lparr>ctrl_sock_fd = 3, max_write_size = 4294971383\<rparr>),
        snd (snd (cpc_init example_headers example_uninit_env (Some None) None False None world0)))"
    by (metis prod.collapse)
  have len: "length example_data = 4088"
    by (simp add: example_data_def)
  then have whole: "take 4088 example_data = example_data"
    by simp
  have "cpc_write_endpoint example_headers (Sys_ok 4088)
        (Some \<lparr>ep_id = 3, sock_fd = 4,
                ep_lib_handle = \<lparr>ctrl_sock_fd = 3, max_write_size = 4294971383\<rparr>\<rparr>)
        (Some example_data) 4088 0 world2
     = (Returns 4088, world2\<lparr>trace := [Ev_send 4 example_data 0]\<rparr>)"
    by (simp add: cpc_write_endpoint_def example_headers_def world2_def sys_send_def emit_def
          Let_def whole size_t_of_ssize_t_def)
  moreover
  from open_good [OF example_valid_headers example_ep_path_fits _ example_open_succeeds,
                  of "\<lparr>ctrl_sock_fd = 3, max_write_size = 4294971383\<rparr>" None]
  have "fst (snd (cpc_open_endpoint example_headers example_open_env
                  (Some \<lparr>ctrl_sock_fd = 3, max_write_size = 4294971383\<rparr>) (Some None) 3 1 world1))
     = Some (Some \<lparr>ep_id = 3, sock_fd = 4,
                   ep_lib_handle = \<lparr>ctrl_sock_fd = 3, max_write_size = 4294971383\<rparr>\<rparr>)"
    by auto
  ultimately show ?thesis using init len by blast
qed

end
